theory Spec2Isabelle
  imports Main "HOL-Library.Word"
begin

unbundle bit_operations_syntax

section \<open>Windows data types and the driver boundary\<close>

text \<open>
  \<open>DWORD\<close>, \<open>UINT\<close> and \<open>MMRESULT\<close> are 32-bit unsigned integers, \<open>unsigned char\<close>
  is an 8-bit one. Device handles (\<open>HMIDIIN\<close>, \<open>HMIDIOUT\<close>) and buffer pointers
  (\<open>LPSTR\<close>) are opaque to the classes and are modelled as natural numbers.
\<close>

type_synonym DWORD = "32 word"
type_synonym UINT = "32 word"
type_synonym MMRESULT = "32 word"
type_synonym uchar = "8 word"
type_synonym HMIDI = nat
type_synonym LPSTR = nat

definition MMSYSERR_NOERROR :: MMRESULT where
  "MMSYSERR_NOERROR = 0"

text \<open>
  Modelled from the spec: \<open>midi.h\<close>, which declares \<open>midi::SHORT_MSG_SHIFT\<close>, is not
  among the sources. The short-message layout of the specification (byte 0 status,
  byte 1 data byte 1, byte 2 data byte 2) fixes the shift to one byte.
\<close>

definition SHORT_MSG_SHIFT :: nat where
  "SHORT_MSG_SHIFT = 8"

text \<open>
  Modelled from the spec: \<open>midi.h\<close>, which declares \<open>midi::SHORT_MSG_MASK\<close>, is not
  among the sources. In the specification byte 0 of an output message is the command
  combined with the channel, and a channel is a number in [0,15]: the mask is the low
  nibble.
\<close>

definition SHORT_MSG_MASK :: DWORD where
  "SHORT_MSG_MASK = 15"

section \<open>Short messages\<close>

text \<open>
  \<open>CMIDIOutDevice::PackShortMsg(DWORD &Msg, unsigned char Status, unsigned char
  DataByte1, unsigned char DataByte2)\<close>. The result parameter \<open>Msg\<close> is the value
  returned. Both data bytes are shifted by \<open>SHORT_MSG_SHIFT\<close>, as the source has it.
\<close>

definition PackShortMsg :: "uchar \<Rightarrow> uchar \<Rightarrow> uchar \<Rightarrow> DWORD" where
  "PackShortMsg Status DataByte1 DataByte2 =
     (let Msg = ucast Status;
          Msg = Msg OR push_bit SHORT_MSG_SHIFT (ucast DataByte1);
          Msg = Msg OR push_bit SHORT_MSG_SHIFT (ucast DataByte2)
      in Msg)"

text \<open>
  \<open>CMIDIOutDevice::PackShortMsg(DWORD &Msg, unsigned char Command, unsigned char
  Channel, unsigned char DataByte1, unsigned char DataByte2)\<close>, the channel form.
  In \<open>DataByte2 << midi::SHORT_MSG_SHIFT * 2\<close> the product binds first.
\<close>

definition PackShortMsg_Channel :: "uchar \<Rightarrow> uchar \<Rightarrow> uchar \<Rightarrow> uchar \<Rightarrow> DWORD" where
  "PackShortMsg_Channel Command Channel DataByte1 DataByte2 =
     (let Msg = ucast (Command OR Channel);
          Msg = Msg OR push_bit SHORT_MSG_SHIFT (ucast DataByte1);
          Msg = Msg OR push_bit (SHORT_MSG_SHIFT * 2) (ucast DataByte2)
      in Msg)"

text \<open>
  \<open>CMIDIInDevice::UnpackShortMsg(DWORD Msg, unsigned char &Status, unsigned char
  &DataByte1, unsigned char &DataByte2)\<close>: the three reference parameters are returned
  as a triple. \<open>static_cast<unsigned char>\<close> keeps the low eight bits.
\<close>

definition UnpackShortMsg :: "DWORD \<Rightarrow> uchar \<times> uchar \<times> uchar" where
  "UnpackShortMsg Msg =
     (ucast Msg,
      ucast (drop_bit SHORT_MSG_SHIFT Msg),
      ucast (drop_bit (SHORT_MSG_SHIFT * 2) Msg))"

text \<open>
  \<open>CMIDIInDevice::UnpackShortMsg(DWORD Msg, unsigned char &Command, unsigned char
  &Channel, unsigned char &DataByte1, unsigned char &DataByte2)\<close>, the channel form.
\<close>

definition UnpackShortMsg_Channel :: "DWORD \<Rightarrow> uchar \<times> uchar \<times> uchar \<times> uchar" where
  "UnpackShortMsg_Channel Msg =
     (ucast (Msg AND NOT SHORT_MSG_MASK),
      ucast (Msg AND SHORT_MSG_MASK),
      ucast (drop_bit SHORT_MSG_SHIFT Msg),
      ucast (drop_bit (SHORT_MSG_SHIFT * 2) Msg))"

section \<open>The driver and the kernel as the classes see them\<close>

text \<open>
  \<open>MIDIHDR\<close> as the header classes fill it in: the buffer, its length and the flags.
\<close>

record MIDIHDR =
  lpData :: LPSTR
  dwBufferLength :: DWORD
  dwFlags :: DWORD

text \<open>
  The calls the two device classes make to \<open>winmm\<close> and to the kernel, with the
  arguments that matter (the callback, the instance pointer and the sizes are fixed).
\<close>

datatype call =
    midiInOpen UINT
  | midiInClose HMIDI
  | midiInPrepareHeader HMIDI MIDIHDR
  | midiInUnprepareHeader HMIDI MIDIHDR
  | midiInAddBuffer HMIDI MIDIHDR
  | midiInStart HMIDI
  | midiInReset HMIDI
  | midiOutOpen UINT
  | midiOutClose HMIDI
  | midiOutPrepareHeader HMIDI MIDIHDR
  | midiOutUnprepareHeader HMIDI MIDIHDR
  | midiOutLongMsg HMIDI MIDIHDR
  | midiOutShortMsg HMIDI DWORD
  | CreateThread
  | CreateEvent
  | SetEvent

text \<open>
  What the outside world answers. \<open>drv_result\<close> is the \<open>MMRESULT\<close> a driver call
  returns, \<open>opened_handle\<close> the handle a successful open stores through its first
  argument, \<open>thread_created\<close> and \<open>event_created\<close> whether \<open>::CreateThread\<close> and
  \<open>::CreateEvent\<close> return a handle other than \<open>NULL\<close>, and \<open>alloc_ok\<close> whether
  \<open>operator new\<close> finds memory. Within one operation of a device no call whose result
  is inspected is made twice, so a function of the call covers every behaviour of the
  driver.
\<close>

record win32 =
  drv_result :: "call \<Rightarrow> MMRESULT"
  opened_handle :: "UINT \<Rightarrow> HMIDI"
  thread_created :: bool
  event_created :: bool
  alloc_ok :: bool

text \<open>
  Every object carries the history of the calls issued on its behalf, oldest first
  (a ghost field: the classes do not store it).
\<close>

record traced =
  calls :: "call list"

definition log :: "call \<Rightarrow> 'a traced_scheme \<Rightarrow> 'a traced_scheme" where
  "log c s = s\<lparr>calls := calls s @ [c]\<rparr>"

text \<open>The calls issued between an earlier state and a later one.\<close>

definition new_calls :: "'a traced_scheme \<Rightarrow> 'b traced_scheme \<Rightarrow> call list" where
  "new_calls s s' = drop (length (calls s)) (calls s')"

text \<open>The exceptions of \<open>MIDIInDevice.h\<close> and \<open>MIDIOutDevice.h\<close>.\<close>

datatype error =
    CMIDIInException MMRESULT
  | CMIDIInMemFailure
  | CMIDIInEventFailure
  | CMIDIInThreadFailure
  | CMIDIOutException MMRESULT
  | CMIDIOutMemFailure
  | CMIDIOutEventFailure
  | CMIDIOutThreadFailure

text \<open>
  The handlers of the source. \<open>catch(const CMIDIInDevice &)\<close> names the device class:
  no exception class derives from it, so it matches nothing that is thrown.
  \<open>catch(const CMIDIOutException &)\<close> matches the driver errors of the output side.
\<close>

definition catch_CMIDIInDevice :: "error \<Rightarrow> bool" where
  "catch_CMIDIInDevice e = False"

fun catch_CMIDIOutException :: "error \<Rightarrow> bool" where
  "catch_CMIDIOutException (CMIDIOutException r) = True"
| "catch_CMIDIOutException e = False"

section \<open>CMIDIInDevice\<close>

text \<open>
  \<open>CMIDIInHeader\<close> and \<open>CMIDIOutHeader\<close> have the same two members, the device handle
  and the \<open>MIDIHDR\<close>; one record serves both.
\<close>

record CMIDIHeader =
  hdr_DevHandle :: HMIDI
  hdr_MIDIHdr :: MIDIHDR

datatype State = CLOSED | OPENED | RECORDING

text \<open>
  The members of \<open>CMIDIInDevice\<close>. \<open>m_Event\<close> is an auto-reset event: \<open>None\<close> is
  the \<open>NULL\<close> handle, \<open>Some b\<close> an event that is signalled iff \<open>b\<close>. \<open>m_HdrQueue\<close> is
  the \<open>std::queue\<close> inside \<open>CHeaderQueue\<close>, front first; the headers it points to are
  held by value.
\<close>

record CMIDIInDevice = traced +
  m_DevHandle :: HMIDI
  m_Event :: "bool option"
  m_Receiver :: nat
  m_HdrQueue :: "CMIDIHeader list"
  m_State :: State

subsection \<open>CMIDIInHeader\<close>

text \<open>
  The constructor prepares the header and throws when the driver refuses; the
  destructor unprepares it and ignores the result; \<open>AddSysExBuffer\<close> hands the buffer
  to the driver and throws when it refuses.
\<close>

definition CMIDIInHeader_ctor ::
  "win32 \<Rightarrow> HMIDI \<Rightarrow> LPSTR \<Rightarrow> DWORD \<Rightarrow> CMIDIInDevice \<Rightarrow> (error + CMIDIHeader) \<times> CMIDIInDevice" where
  "CMIDIInHeader_ctor w DevHandle Buffer BufferLength s =
     (let hdr = \<lparr>lpData = Buffer, dwBufferLength = BufferLength, dwFlags = 0\<rparr>;
          Result = drv_result w (midiInPrepareHeader DevHandle hdr);
          s = log (midiInPrepareHeader DevHandle hdr) s
      in if Result \<noteq> MMSYSERR_NOERROR then (Inl (CMIDIInException Result), s)
         else (Inr \<lparr>hdr_DevHandle = DevHandle, hdr_MIDIHdr = hdr\<rparr>, s))"

definition CMIDIInHeader_dtor :: "CMIDIHeader \<Rightarrow> CMIDIInDevice \<Rightarrow> CMIDIInDevice" where
  "CMIDIInHeader_dtor Header s =
     log (midiInUnprepareHeader (hdr_DevHandle Header) (hdr_MIDIHdr Header)) s"

definition CMIDIInHeader_AddSysExBuffer ::
  "win32 \<Rightarrow> CMIDIHeader \<Rightarrow> CMIDIInDevice \<Rightarrow> (error + unit) \<times> CMIDIInDevice" where
  "CMIDIInHeader_AddSysExBuffer w Header s =
     (let c = midiInAddBuffer (hdr_DevHandle Header) (hdr_MIDIHdr Header);
          Result = drv_result w c;
          s = log c s
      in if Result \<noteq> MMSYSERR_NOERROR then (Inl (CMIDIInException Result), s)
         else (Inr (), s))"

subsection \<open>CHeaderQueue\<close>

definition AddHeader :: "CMIDIHeader \<Rightarrow> CMIDIInDevice \<Rightarrow> CMIDIInDevice" where
  "AddHeader Header s = s\<lparr>m_HdrQueue := m_HdrQueue s @ [Header]\<rparr>"

definition RemoveHeader :: "CMIDIInDevice \<Rightarrow> CMIDIInDevice" where
  "RemoveHeader s =
     (case m_HdrQueue s of
        [] \<Rightarrow> s
      | Header # rest \<Rightarrow> (CMIDIInHeader_dtor Header s)\<lparr>m_HdrQueue := rest\<rparr>)"

function RemoveAll :: "CMIDIInDevice \<Rightarrow> CMIDIInDevice" where
  "RemoveAll s =
     (if m_HdrQueue s \<noteq> []
      then RemoveAll ((CMIDIInHeader_dtor (hd (m_HdrQueue s)) s)\<lparr>m_HdrQueue := tl (m_HdrQueue s)\<rparr>)
      else s)"
  by pat_completeness auto
termination
  by (relation "measure (\<lambda>s. length (m_HdrQueue s))") (auto simp: CMIDIInHeader_dtor_def log_def)

declare RemoveAll.simps [simp del]

definition IsEmpty :: "CMIDIInDevice \<Rightarrow> bool" where
  "IsEmpty s = (m_HdrQueue s = [])"

subsection \<open>The device\<close>

text \<open>\<open>::SetEvent(m_Event)\<close>: it signals the event, and fails on the \<open>NULL\<close> handle.\<close>

definition SetEvent_In :: "CMIDIInDevice \<Rightarrow> CMIDIInDevice" where
  "SetEvent_In s = log SetEvent (s\<lparr>m_Event := map_option (\<lambda>b. True) (m_Event s)\<rparr>)"

definition CMIDIInDevice_CreateEvent :: "win32 \<Rightarrow> CMIDIInDevice \<Rightarrow> bool \<times> CMIDIInDevice" where
  "CMIDIInDevice_CreateEvent w s =
     (let s = log CreateEvent (s\<lparr>m_Event := (if event_created w then Some False else None)\<rparr>)
      in (m_Event s \<noteq> None, s))"

definition CMIDIInDevice_StopRecording :: "CMIDIInDevice \<Rightarrow> CMIDIInDevice" where
  "CMIDIInDevice_StopRecording s =
     (if m_State s = RECORDING
      then (let s = s\<lparr>m_State := OPENED\<rparr>;
                s = SetEvent_In s;
                s = log (midiInReset (m_DevHandle s)) s
            in RemoveAll s)
      else s)"

definition CMIDIInDevice_Close :: "win32 \<Rightarrow> CMIDIInDevice \<Rightarrow> (error + unit) \<times> CMIDIInDevice" where
  "CMIDIInDevice_Close w s =
     (let s = (if m_State s = RECORDING then CMIDIInDevice_StopRecording s else s)
      in if m_State s = OPENED
         then (let Result = drv_result w (midiInClose (m_DevHandle s));
                   s = log (midiInClose (m_DevHandle s)) s
               in if Result \<noteq> MMSYSERR_NOERROR then (Inl (CMIDIInException Result), s)
                  else (Inr (), s\<lparr>m_State := CLOSED\<rparr>))
         else (Inr (), s))"

text \<open>
  \<open>Open\<close>: a failed \<open>midiInOpen\<close> is taken to leave \<open>m_DevHandle\<close> as it was.
\<close>

definition CMIDIInDevice_Open ::
  "win32 \<Rightarrow> UINT \<Rightarrow> CMIDIInDevice \<Rightarrow> (error + unit) \<times> CMIDIInDevice" where
  "CMIDIInDevice_Open w DeviceId s =
     (case CMIDIInDevice_Close w s of
        (Inl e, s) \<Rightarrow> (Inl e, s)
      | (Inr u, s) \<Rightarrow>
          (let Result = drv_result w (midiInOpen DeviceId);
               s = log (midiInOpen DeviceId) s
           in if Result = MMSYSERR_NOERROR
              then (Inr (), s\<lparr>m_DevHandle := opened_handle w DeviceId, m_State := OPENED\<rparr>)
              else (Inl (CMIDIInException Result), s)))"

text \<open>
  The constructor that opens the device. The members without an initialiser
  (\<open>m_DevHandle\<close>, \<open>m_Event\<close>) start as 0 and \<open>NULL\<close>. The state at the throw is returned
  next to the exception, so that the calls made before it can be read.
\<close>

definition CMIDIInDevice_ctor ::
  "win32 \<Rightarrow> UINT \<Rightarrow> nat \<Rightarrow> (error + unit) \<times> CMIDIInDevice" where
  "CMIDIInDevice_ctor w DeviceId Receiver =
     (let s = \<lparr>calls = [], m_DevHandle = 0, m_Event = None, m_Receiver = Receiver,
               m_HdrQueue = [], m_State = CLOSED\<rparr>
      in case CMIDIInDevice_Open w DeviceId s of
           (Inl e, s) \<Rightarrow> (Inl e, s)
         | (Inr u, s) \<Rightarrow>
             (case CMIDIInDevice_CreateEvent w s of
                (True, s) \<Rightarrow> (Inr (), s)
              | (False, s) \<Rightarrow>
                  (case CMIDIInDevice_Close w s of
                     (Inl e, s) \<Rightarrow> (Inl e, s)
                   | (Inr u, s) \<Rightarrow> (Inl CMIDIInEventFailure, s))))"

text \<open>
  \<open>AddSysExBuffer\<close>. In the first \<open>try\<close> block \<open>std::bad_alloc\<close> becomes
  \<open>CMIDIInMemFailure\<close> and the constructor's exception leaves the function whether the
  second handler matches or not. In the second block the handler deletes the header
  and rethrows, when it matches.
\<close>

definition CMIDIInDevice_AddSysExBuffer ::
  "win32 \<Rightarrow> LPSTR \<Rightarrow> DWORD \<Rightarrow> CMIDIInDevice \<Rightarrow> (error + unit) \<times> CMIDIInDevice" where
  "CMIDIInDevice_AddSysExBuffer w Buffer BufferLength s =
     (if \<not> alloc_ok w then (Inl CMIDIInMemFailure, s)
      else case CMIDIInHeader_ctor w (m_DevHandle s) Buffer BufferLength s of
             (Inl e, s) \<Rightarrow> (Inl e, s)
           | (Inr Header, s) \<Rightarrow>
               (case CMIDIInHeader_AddSysExBuffer w Header s of
                  (Inr u, s) \<Rightarrow> (Inr (), AddHeader Header s)
                | (Inl e, s) \<Rightarrow>
                    (if catch_CMIDIInDevice e then (Inl e, CMIDIInHeader_dtor Header s)
                     else (Inl e, s))))"

definition CMIDIInDevice_StartRecording ::
  "win32 \<Rightarrow> CMIDIInDevice \<Rightarrow> (error + unit) \<times> CMIDIInDevice" where
  "CMIDIInDevice_StartRecording w s =
     (if m_State s = OPENED
      then (let s = log CreateThread s
            in if \<not> thread_created w then (Inl CMIDIInThreadFailure, s)
               else (let s = s\<lparr>m_State := RECORDING\<rparr>;
                         Result = drv_result w (midiInStart (m_DevHandle s));
                         s = log (midiInStart (m_DevHandle s)) s
                     in if Result \<noteq> MMSYSERR_NOERROR
                        then (let s = s\<lparr>m_State := OPENED\<rparr>;
                                  s = SetEvent_In s
                              in (Inl (CMIDIInException Result), s))
                        else (Inr (), s)))
      else (Inr (), s))"

subsection \<open>The worker thread\<close>

text \<open>
  \<open>HeaderProc\<close> runs beside the application thread, so it is a step function on the
  shared device: the thread is about to test the loop condition, or is inside
  \<open>::WaitForSingleObject\<close>, or has returned. A wait on an event that is not signalled
  does not step; a wait that succeeds resets the event; a wait on the \<open>NULL\<close> handle
  fails at once.
\<close>

datatype worker = AtWhile | AtWait | Returned

fun HeaderProc_step :: "worker \<Rightarrow> CMIDIInDevice \<Rightarrow> (worker \<times> CMIDIInDevice) option" where
  "HeaderProc_step AtWhile s =
     Some (if m_State s = RECORDING then AtWait else Returned, s)"
| "HeaderProc_step AtWait s =
     (if m_Event s = Some False then None
      else (let s = s\<lparr>m_Event := map_option (\<lambda>b. False) (m_Event s)\<rparr>
            in Some (AtWhile, if m_State s = RECORDING then RemoveHeader s else s)))"
| "HeaderProc_step Returned s = None"

subsection \<open>StartRecording beside the workers\<close>

text \<open>
  \<open>StartRecording\<close> creates a thread at every call and nothing ever joins one, so the
  application thread inside \<open>StartRecording\<close> runs beside every worker that has not
  returned yet. The application thread is at one of the statements of
  \<open>StartRecording\<close>: the test of the state, \<open>::CreateThread\<close>, the assignment of
  \<open>RECORDING\<close>, \<open>::midiInStart\<close>, the assignment of \<open>OPENED\<close> that rolls back,
  \<open>::SetEvent\<close>; or it has left the function, normally or by an exception. The two
  statements of the rollback remember the driver's result for the exception.
\<close>

datatype app_pc =
    AtEntry
  | AtCreateThread
  | AtSetRecording
  | AtStart
  | AtRollback MMRESULT
  | AtSetEvent MMRESULT
  | Finished "error + unit"

record system =
  dev :: CMIDIInDevice
  app :: app_pc
  workers :: "worker list"

text \<open>One statement of \<open>StartRecording\<close>. A thread that is created starts at its loop test.\<close>

definition StartRecording_step :: "win32 \<Rightarrow> system \<Rightarrow> system" where
  "StartRecording_step w sys =
     (case app sys of
        AtEntry \<Rightarrow>
          (if m_State (dev sys) = OPENED then sys\<lparr>app := AtCreateThread\<rparr>
           else sys\<lparr>app := Finished (Inr ())\<rparr>)
      | AtCreateThread \<Rightarrow>
          (if \<not> thread_created w
           then sys\<lparr>dev := log CreateThread (dev sys), app := Finished (Inl CMIDIInThreadFailure)\<rparr>
           else sys\<lparr>dev := log CreateThread (dev sys), app := AtSetRecording,
                    workers := workers sys @ [AtWhile]\<rparr>)
      | AtSetRecording \<Rightarrow>
          sys\<lparr>dev := (dev sys)\<lparr>m_State := RECORDING\<rparr>, app := AtStart\<rparr>
      | AtStart \<Rightarrow>
          (let Result = drv_result w (midiInStart (m_DevHandle (dev sys)));
               d = log (midiInStart (m_DevHandle (dev sys))) (dev sys)
           in if Result \<noteq> MMSYSERR_NOERROR then sys\<lparr>dev := d, app := AtRollback Result\<rparr>
              else sys\<lparr>dev := d, app := Finished (Inr ())\<rparr>)
      | AtRollback Result \<Rightarrow>
          sys\<lparr>dev := (dev sys)\<lparr>m_State := OPENED\<rparr>, app := AtSetEvent Result\<rparr>
      | AtSetEvent Result \<Rightarrow>
          sys\<lparr>dev := SetEvent_In (dev sys), app := Finished (Inl (CMIDIInException Result))\<rparr>
      | Finished r \<Rightarrow> sys)"

text \<open>
  The scheduler picks the application thread or a worker. A thread that cannot move
  (a worker that is blocked or has returned, a worker that does not exist, the
  application thread once it has left) leaves the system as it is.
\<close>

datatype choice = App | Worker nat

fun step :: "win32 \<Rightarrow> choice \<Rightarrow> system \<Rightarrow> system" where
  "step w App sys = StartRecording_step w sys"
| "step w (Worker i) sys =
     (if i < length (workers sys)
      then (case HeaderProc_step (workers sys ! i) (dev sys) of
              None \<Rightarrow> sys
            | Some (pc, d) \<Rightarrow> sys\<lparr>dev := d, workers := (workers sys)[i := pc]\<rparr>)
      else sys)"

fun run :: "win32 \<Rightarrow> choice list \<Rightarrow> system \<Rightarrow> system" where
  "run w [] sys = sys"
| "run w (c # cs) sys = run w cs (step w c sys)"

text \<open>The application thread enters \<open>StartRecording\<close> beside the workers \<open>ws\<close>.\<close>

definition enter :: "CMIDIInDevice \<Rightarrow> worker list \<Rightarrow> system" where
  "enter s ws = \<lparr>dev = s, app = AtEntry, workers = ws\<rparr>"

section \<open>CMIDIOutDevice\<close>

datatype State_Out = CLOSED_Out | OPENED_Out

record CMIDIOutDevice = traced +
  m_DevHandle_Out :: HMIDI
  m_Event_Out :: "bool option"
  m_HdrQueue_Out :: "CMIDIHeader list"
  m_State_Out :: State_Out

subsection \<open>CMIDIOutHeader\<close>

definition CMIDIOutHeader_ctor ::
  "win32 \<Rightarrow> HMIDI \<Rightarrow> LPSTR \<Rightarrow> DWORD \<Rightarrow> CMIDIOutDevice \<Rightarrow> (error + CMIDIHeader) \<times> CMIDIOutDevice" where
  "CMIDIOutHeader_ctor w DevHandle Msg MsgLength s =
     (let hdr = \<lparr>lpData = Msg, dwBufferLength = MsgLength, dwFlags = 0\<rparr>;
          Result = drv_result w (midiOutPrepareHeader DevHandle hdr);
          s = log (midiOutPrepareHeader DevHandle hdr) s
      in if Result \<noteq> MMSYSERR_NOERROR then (Inl (CMIDIOutException Result), s)
         else (Inr \<lparr>hdr_DevHandle = DevHandle, hdr_MIDIHdr = hdr\<rparr>, s))"

definition CMIDIOutHeader_dtor :: "CMIDIHeader \<Rightarrow> CMIDIOutDevice \<Rightarrow> CMIDIOutDevice" where
  "CMIDIOutHeader_dtor Header s =
     log (midiOutUnprepareHeader (hdr_DevHandle Header) (hdr_MIDIHdr Header)) s"

definition CMIDIOutHeader_SendMsg ::
  "win32 \<Rightarrow> CMIDIHeader \<Rightarrow> CMIDIOutDevice \<Rightarrow> (error + unit) \<times> CMIDIOutDevice" where
  "CMIDIOutHeader_SendMsg w Header s =
     (let c = midiOutLongMsg (hdr_DevHandle Header) (hdr_MIDIHdr Header);
          Result = drv_result w c;
          s = log c s
      in if Result \<noteq> MMSYSERR_NOERROR then (Inl (CMIDIOutException Result), s)
         else (Inr (), s))"

subsection \<open>CHeaderQueue of the output device\<close>

definition AddHeader_Out :: "CMIDIHeader \<Rightarrow> CMIDIOutDevice \<Rightarrow> CMIDIOutDevice" where
  "AddHeader_Out Header s = s\<lparr>m_HdrQueue_Out := m_HdrQueue_Out s @ [Header]\<rparr>"

definition RemoveHeader_Out :: "CMIDIOutDevice \<Rightarrow> CMIDIOutDevice" where
  "RemoveHeader_Out s =
     (case m_HdrQueue_Out s of
        [] \<Rightarrow> s
      | Header # rest \<Rightarrow> (CMIDIOutHeader_dtor Header s)\<lparr>m_HdrQueue_Out := rest\<rparr>)"

function RemoveAll_Out :: "CMIDIOutDevice \<Rightarrow> CMIDIOutDevice" where
  "RemoveAll_Out s =
     (if m_HdrQueue_Out s \<noteq> []
      then RemoveAll_Out
             ((CMIDIOutHeader_dtor (hd (m_HdrQueue_Out s)) s)\<lparr>m_HdrQueue_Out := tl (m_HdrQueue_Out s)\<rparr>)
      else s)"
  by pat_completeness auto
termination
  by (relation "measure (\<lambda>s. length (m_HdrQueue_Out s))") (auto simp: CMIDIOutHeader_dtor_def log_def)

declare RemoveAll_Out.simps [simp del]

subsection \<open>The device\<close>

definition SetEvent_Out :: "CMIDIOutDevice \<Rightarrow> CMIDIOutDevice" where
  "SetEvent_Out s = log SetEvent (s\<lparr>m_Event_Out := map_option (\<lambda>b. True) (m_Event_Out s)\<rparr>)"

definition CMIDIOutDevice_CreateEvent :: "win32 \<Rightarrow> CMIDIOutDevice \<Rightarrow> bool \<times> CMIDIOutDevice" where
  "CMIDIOutDevice_CreateEvent w s =
     (let s = log CreateEvent (s\<lparr>m_Event_Out := (if event_created w then Some False else None)\<rparr>)
      in (m_Event_Out s \<noteq> None, s))"

text \<open>
  \<open>Close\<close> has no \<open>throw\<close>: the value of \<open>::midiOutClose\<close> is dropped, and the result
  is always \<open>Inr ()\<close>.
\<close>

definition CMIDIOutDevice_Close :: "win32 \<Rightarrow> CMIDIOutDevice \<Rightarrow> (error + unit) \<times> CMIDIOutDevice" where
  "CMIDIOutDevice_Close w s =
     (if m_State_Out s = OPENED_Out
      then (let s = s\<lparr>m_State_Out := CLOSED_Out\<rparr>;
                s = SetEvent_Out s;
                s = RemoveAll_Out s;
                s = log (midiOutClose (m_DevHandle_Out s)) s
            in (Inr (), s))
      else (Inr (), s))"

definition CMIDIOutDevice_Open ::
  "win32 \<Rightarrow> UINT \<Rightarrow> CMIDIOutDevice \<Rightarrow> (error + unit) \<times> CMIDIOutDevice" where
  "CMIDIOutDevice_Open w DeviceId s =
     (case CMIDIOutDevice_Close w s of
        (Inl e, s) \<Rightarrow> (Inl e, s)
      | (Inr u, s) \<Rightarrow>
          (let s = log CreateThread s
           in if \<not> thread_created w then (Inl CMIDIOutThreadFailure, s)
              else (let Result = drv_result w (midiOutOpen DeviceId);
                        s = log (midiOutOpen DeviceId) s
                    in if Result = MMSYSERR_NOERROR
                       then (Inr (), s\<lparr>m_DevHandle_Out := opened_handle w DeviceId,
                                       m_State_Out := OPENED_Out\<rparr>)
                       else (Inl (CMIDIOutException Result), SetEvent_Out s))))"

text \<open>
  The constructor that opens the device; \<open>m_DevHandle\<close> and \<open>m_Event\<close> start as in the
  input device, and \<open>Open\<close> runs before the event is created.
\<close>

definition CMIDIOutDevice_ctor :: "win32 \<Rightarrow> UINT \<Rightarrow> (error + unit) \<times> CMIDIOutDevice" where
  "CMIDIOutDevice_ctor w DeviceId =
     (let s = \<lparr>calls = [], m_DevHandle_Out = 0, m_Event_Out = None, m_HdrQueue_Out = [],
               m_State_Out = CLOSED_Out\<rparr>
      in case CMIDIOutDevice_Open w DeviceId s of
           (Inl e, s) \<Rightarrow> (Inl e, s)
         | (Inr u, s) \<Rightarrow>
             (case CMIDIOutDevice_CreateEvent w s of
                (True, s) \<Rightarrow> (Inr (), s)
              | (False, s) \<Rightarrow>
                  (case CMIDIOutDevice_Close w s of
                     (Inl e, s) \<Rightarrow> (Inl e, s)
                   | (Inr u, s) \<Rightarrow> (Inl CMIDIOutEventFailure, s))))"

text \<open>\<open>SendMsg(DWORD Msg)\<close>, the short message.\<close>

definition CMIDIOutDevice_SendMsg ::
  "win32 \<Rightarrow> DWORD \<Rightarrow> CMIDIOutDevice \<Rightarrow> (error + unit) \<times> CMIDIOutDevice" where
  "CMIDIOutDevice_SendMsg w Msg s =
     (if m_State_Out s = OPENED_Out
      then (let Result = drv_result w (midiOutShortMsg (m_DevHandle_Out s) Msg);
                s = log (midiOutShortMsg (m_DevHandle_Out s) Msg) s
            in if Result \<noteq> MMSYSERR_NOERROR then (Inl (CMIDIOutException Result), s)
               else (Inr (), s))
      else (Inr (), s))"

text \<open>
  \<open>SendMsg(LPSTR Msg, DWORD MsgLength)\<close>, the long message. The handler of the second
  \<open>try\<close> block deletes the header; it has no \<open>throw\<close>, so the function returns.
\<close>

definition CMIDIOutDevice_SendMsg_Long ::
  "win32 \<Rightarrow> LPSTR \<Rightarrow> DWORD \<Rightarrow> CMIDIOutDevice \<Rightarrow> (error + unit) \<times> CMIDIOutDevice" where
  "CMIDIOutDevice_SendMsg_Long w Msg MsgLength s =
     (if m_State_Out s = OPENED_Out
      then (if \<not> alloc_ok w then (Inl CMIDIOutMemFailure, s)
            else case CMIDIOutHeader_ctor w (m_DevHandle_Out s) Msg MsgLength s of
                   (Inl e, s) \<Rightarrow> (Inl e, s)
                 | (Inr Header, s) \<Rightarrow>
                     (case CMIDIOutHeader_SendMsg w Header s of
                        (Inr u, s) \<Rightarrow> (Inr (), AddHeader_Out Header s)
                      | (Inl e, s) \<Rightarrow>
                          (if catch_CMIDIOutException e then (Inr (), CMIDIOutHeader_dtor Header s)
                           else (Inl e, s))))
      else (Inr (), s))"

section \<open>Scenarios\<close>

text \<open>The header queue driven by a script of submissions and reclamations.\<close>

datatype queue_op = Add CMIDIHeader | Remove

fun run_queue :: "queue_op list \<Rightarrow> CMIDIInDevice \<Rightarrow> CMIDIInDevice" where
  "run_queue [] s = s"
| "run_queue (Add Header # ops) s = run_queue ops (AddHeader Header s)"
| "run_queue (Remove # ops) s = run_queue ops (RemoveHeader s)"

text \<open>The headers a script submits, in order.\<close>

fun submitted :: "queue_op list \<Rightarrow> CMIDIHeader list" where
  "submitted [] = []"
| "submitted (Add Header # ops) = Header # submitted ops"
| "submitted (Remove # ops) = submitted ops"

text \<open>
  The headers destroyed in a history of calls, in order: each destructor leaves its
  \<open>midiInUnprepareHeader\<close>.
\<close>

fun reclaimed :: "call list \<Rightarrow> CMIDIHeader list" where
  "reclaimed [] = []"
| "reclaimed (midiInUnprepareHeader h hdr # cs) =
     \<lparr>hdr_DevHandle = h, hdr_MIDIHdr = hdr\<rparr> # reclaimed cs"
| "reclaimed (c # cs) = reclaimed cs"

text \<open>Sample data: a driver that accepts every call, and drivers that refuse one.\<close>

definition accepting :: win32 where
  "accepting = \<lparr>drv_result = (\<lambda>c. MMSYSERR_NOERROR), opened_handle = (\<lambda>DeviceId. 7),
     thread_created = True, event_created = True, alloc_ok = True\<rparr>"

definition refusing :: "call \<Rightarrow> win32" where
  "refusing c = accepting\<lparr>drv_result := (\<lambda>c'. if c' = c then 11 else MMSYSERR_NOERROR)\<rparr>"

definition sysex_hdr :: "HMIDI \<Rightarrow> LPSTR \<Rightarrow> CMIDIHeader" where
  "sysex_hdr h buf =
     \<lparr>hdr_DevHandle = h, hdr_MIDIHdr = \<lparr>lpData = buf, dwBufferLength = 64, dwFlags = 0\<rparr>\<rparr>"

definition in_dev :: "State \<Rightarrow> CMIDIHeader list \<Rightarrow> CMIDIInDevice" where
  "in_dev st q = \<lparr>calls = [], m_DevHandle = 3, m_Event = Some False, m_Receiver = 1,
     m_HdrQueue = q, m_State = st\<rparr>"

definition out_dev :: "State_Out \<Rightarrow> CMIDIHeader list \<Rightarrow> CMIDIOutDevice" where
  "out_dev st q = \<lparr>calls = [], m_DevHandle_Out = 3, m_Event_Out = Some False,
     m_HdrQueue_Out = q, m_State_Out = st\<rparr>"

definition no_event :: "win32 \<Rightarrow> win32" where
  "no_event w = w\<lparr>event_created := False\<rparr>"

definition no_thread :: "win32 \<Rightarrow> win32" where
  "no_thread w = w\<lparr>thread_created := False\<rparr>"

text \<open>
  A worker left over. On an open device with no worker, \<open>StartRecording\<close> succeeds and
  \<open>StopRecording\<close> follows before the new worker has been scheduled; then
  \<open>StartRecording\<close> is entered again.
\<close>

definition stale_sys :: system where
  "stale_sys =
     (let sys = run accepting [App, App, App, App] (enter (in_dev OPENED []) [])
      in enter (CMIDIInDevice_StopRecording (dev sys)) (workers sys))"

text \<open>
  The second \<open>StartRecording\<close>, which the driver rejects. The old worker is scheduled
  while the state is \<open>RECORDING\<close> and goes to wait, as does the new one; the old worker
  is the one that the \<open>::SetEvent\<close> of the rollback releases.
\<close>

definition blocked_sys :: system where
  "blocked_sys =
     run (refusing (midiInStart 3))
       [App, App, App, Worker 0, Worker 0, Worker 0, Worker 1, App, App, App,
        Worker 0, Worker 0]
       stale_sys"

text \<open>
  Two invariants of the interleaving. The first holds from every start: whenever the
  application thread is about to set the event, or has left by an exception, the state
  is \<open>OPENED\<close>. The second is for a \<open>StartRecording\<close> that the driver rejects with
  \<open>R\<close> on the handle \<open>h\<close>, entered beside \<open>n\<close> workers that have all returned: the
  thread it creates is the only one alive, and once the exception has left, that
  worker is not waiting on an event that is not signalled.
\<close>

definition rollback_first :: "system \<Rightarrow> bool" where
  "rollback_first sys =
     (case app sys of
        AtCreateThread \<Rightarrow> m_State (dev sys) = OPENED
      | AtSetRecording \<Rightarrow> m_State (dev sys) = OPENED
      | AtSetEvent r \<Rightarrow> m_State (dev sys) = OPENED
      | Finished (Inl e) \<Rightarrow> m_State (dev sys) = OPENED
      | _ \<Rightarrow> True)"

definition sole_worker :: "HMIDI \<Rightarrow> MMRESULT \<Rightarrow> nat \<Rightarrow> system \<Rightarrow> bool" where
  "sole_worker h R n sys =
     (m_DevHandle (dev sys) = h \<and>
      take n (workers sys) = replicate n Returned \<and>
      (case app sys of
         AtEntry \<Rightarrow> length (workers sys) = n \<and> m_State (dev sys) = OPENED
       | AtCreateThread \<Rightarrow> length (workers sys) = n \<and> m_State (dev sys) = OPENED
       | AtSetRecording \<Rightarrow> length (workers sys) = Suc n
       | AtStart \<Rightarrow> length (workers sys) = Suc n
       | AtRollback r \<Rightarrow> length (workers sys) = Suc n \<and> r = R
       | AtSetEvent r \<Rightarrow> length (workers sys) = Suc n \<and> r = R \<and> m_State (dev sys) = OPENED
       | Finished res \<Rightarrow>
           length (workers sys) = Suc n \<and> res = Inl (CMIDIInException R) \<and>
           m_State (dev sys) = OPENED \<and>
           \<not> (m_Event (dev sys) = Some False \<and> workers sys ! n = AtWait)))"

text \<open>The call a header's destructor makes, on either side.\<close>

abbreviation unprep_in :: "CMIDIHeader \<Rightarrow> call" where
  "unprep_in H \<equiv> midiInUnprepareHeader (hdr_DevHandle H) (hdr_MIDIHdr H)"

abbreviation unprep_out :: "CMIDIHeader \<Rightarrow> call" where
  "unprep_out H \<equiv> midiOutUnprepareHeader (hdr_DevHandle H) (hdr_MIDIHdr H)"

section \<open>Short messages: results\<close>

lemma ucast_drop_bit_8_pack:
  fixes a b c :: uchar
  shows "(ucast (drop_bit 8 (((ucast a :: DWORD) OR push_bit 8 (ucast b)) OR push_bit 16 (ucast c))) :: uchar) = b"
  by (rule bit_word_eqI) (auto simp: bit_simps dest: bit_imp_le_length)

lemma ucast_drop_bit_16_pack:
  fixes a b c :: uchar
  shows "(ucast (drop_bit 16 (((ucast a :: DWORD) OR push_bit 8 (ucast b)) OR push_bit 16 (ucast c))) :: uchar) = c"
  by (rule bit_word_eqI) (auto simp: bit_simps dest: bit_imp_le_length)

lemma ucast_low_pack:
  fixes a b c :: uchar
  shows "(ucast ((((ucast a :: DWORD) OR push_bit 8 (ucast b)) OR push_bit 16 (ucast c)) AND m) :: uchar) = a AND ucast m"
  by (rule bit_word_eqI) (auto simp: bit_simps)

lemma le15_and:
  fixes x :: uchar
  shows "x \<le> 15 \<Longrightarrow> x AND 15 = x"
  using less_mask_eq [of x 4]
  by (simp add: mask_eq_exp_minus_1 word_le_nat_alt word_less_nat_alt)

lemma and_not_of_and:
  fixes x m :: uchar
  assumes "x AND m = x"
  shows "x AND NOT m = 0"
proof -
  have "x AND NOT m = (x AND m) AND NOT m" using assms by simp
  also have "\<dots> = 0" by (simp only: and.assoc bit.conj_cancel_right and_zero_eq)
  finally show ?thesis .
qed

lemma and_not_of_zero:
  fixes x m :: uchar
  assumes "x AND m = 0"
  shows "x AND NOT m = x"
proof -
  have "x = (x AND m) OR (x AND NOT m)"
    by (simp only: flip: bit.conj_disj_distrib) simp
  then show ?thesis using assms by simp
qed

text \<open>
  What the status form gives back, for every input: the status, the two data bytes
  merged in the place of the first, and nothing in the place of the second.
\<close>

lemma UnpackShortMsg_PackShortMsg:
  "UnpackShortMsg (PackShortMsg Status DataByte1 DataByte2) = (Status, DataByte1 OR DataByte2, 0)"
  unfolding UnpackShortMsg_def PackShortMsg_def SHORT_MSG_SHIFT_def Let_def
  apply simp
  apply (intro conjI; rule bit_word_eqI)
    apply (auto simp: bit_simps dest: bit_imp_le_length)
  done

text \<open>
  C1. The claim: packing a status byte and two data bytes in [0,127] with the
  three-byte \<open>PackShortMsg\<close> and unpacking with the three-byte \<open>UnpackShortMsg\<close> gives
  back the status and both data bytes. The code does not: note on (144), key 60,
  velocity 100 comes back as key 124 (60 OR 100) and velocity 0, because
  \<open>PackShortMsg\<close> shifts \<open>DataByte2\<close> by one byte where the channel form shifts it by
  two.
\<close>

theorem PackShortMsg_status_roundtrip_fails:
  "UnpackShortMsg (PackShortMsg 144 60 100) = (144, 124, 0) \<and>
   UnpackShortMsg (PackShortMsg 144 60 100) \<noteq> (144, 60, 100)"
  by (simp add: UnpackShortMsg_PackShortMsg)

text \<open>
  C8. For every command byte whose low nibble is zero, every channel in [0,15] and all
  data bytes (those in [0,127] among them), the channel form of \<open>UnpackShortMsg\<close>
  applied to the channel form of \<open>PackShortMsg\<close> gives back the command, the channel
  and both data bytes.
\<close>

theorem PackShortMsg_Channel_roundtrip:
  assumes "Command AND 15 = 0" and "Channel \<le> 15"
  shows "UnpackShortMsg_Channel (PackShortMsg_Channel Command Channel DataByte1 DataByte2)
          = (Command, Channel, DataByte1, DataByte2)"
proof -
  let ?M = "PackShortMsg_Channel Command Channel DataByte1 DataByte2"
  have ch: "(Command OR Channel) AND 15 = Channel"
    using assms by (simp add: bit.conj_disj_distrib2 le15_and)
  have "(Command OR Channel) AND NOT 15 = (Command AND NOT 15) OR (Channel AND NOT 15)"
    by (rule bit.conj_disj_distrib2)
  also have "Command AND NOT 15 = Command"
    using assms(1) by (rule and_not_of_zero)
  also have "Channel AND NOT 15 = 0"
    using le15_and [OF assms(2)] by (rule and_not_of_and)
  finally have cm: "(Command OR Channel) AND NOT 15 = Command" by simp
  have M: "?M = (ucast (Command OR Channel) OR push_bit 8 (ucast DataByte1))
                  OR push_bit 16 (ucast DataByte2)"
    by (simp add: PackShortMsg_Channel_def SHORT_MSG_SHIFT_def Let_def)
  have n15: "ucast (NOT 15 :: DWORD) = (NOT 15 :: uchar)"
    and p15: "ucast (15 :: DWORD) = (15 :: uchar)"
    by simp_all
  have 1: "(ucast (?M AND NOT 15) :: uchar) = Command"
    unfolding M ucast_low_pack n15 by (rule cm)
  have 2: "(ucast (?M AND 15) :: uchar) = Channel"
    unfolding M ucast_low_pack p15 by (rule ch)
  have 3: "(ucast (drop_bit 8 ?M) :: uchar) = DataByte1"
    unfolding M by (rule ucast_drop_bit_8_pack)
  have 4: "(ucast (drop_bit 16 ?M) :: uchar) = DataByte2"
    unfolding M by (rule ucast_drop_bit_16_pack)
  have "UnpackShortMsg_Channel ?M
      = (ucast (?M AND NOT 15), ucast (?M AND 15), ucast (drop_bit 8 ?M), ucast (drop_bit 16 ?M))"
    by (simp add: UnpackShortMsg_Channel_def SHORT_MSG_SHIFT_def SHORT_MSG_MASK_def)
  then show ?thesis
    by (simp only: 1 2 3 4)
qed

theorem PackShortMsg_Channel_roundtrip_witness:
  "(144 :: uchar) AND 15 = 0 \<and> (5 :: uchar) \<le> 15 \<and>
   UnpackShortMsg_Channel (PackShortMsg_Channel 144 5 60 100) = (144, 5, 60, 100)"
  using PackShortMsg_Channel_roundtrip [of 144 5 60 100] by simp

section \<open>The header queue: results\<close>

lemma calls_log [simp]: "calls (log c s) = calls s @ [c]"
  by (simp add: log_def)

lemma log_In [simp]:
  "m_DevHandle (log c s) = m_DevHandle s" "m_Event (log c s) = m_Event s"
  "m_Receiver (log c s) = m_Receiver s" "m_HdrQueue (log c s) = m_HdrQueue s"
  "m_State (log c s) = m_State s"
  by (simp_all add: log_def)

lemma log_Out [simp]:
  "m_DevHandle_Out (log c t) = m_DevHandle_Out t" "m_Event_Out (log c t) = m_Event_Out t"
  "m_HdrQueue_Out (log c t) = m_HdrQueue_Out t" "m_State_Out (log c t) = m_State_Out t"
  by (simp_all add: log_def)

lemma new_calls_append [simp]: "calls s' = calls s @ cs \<Longrightarrow> new_calls s s' = cs"
  by (simp add: new_calls_def)

text \<open>The loop of \<open>RemoveAll\<close> destroys every header, front first, and leaves the queue empty.\<close>

lemma RemoveAll_eq:
  "RemoveAll s = s\<lparr>calls := calls s @ map unprep_in (m_HdrQueue s), m_HdrQueue := []\<rparr>"
proof (induction s rule: RemoveAll.induct)
  case (1 s)
  show ?case
  proof (cases "m_HdrQueue s")
    case Nil
    then show ?thesis by (subst RemoveAll.simps) simp
  next
    case (Cons H rest)
    then show ?thesis
      using 1 by (subst RemoveAll.simps) (simp add: CMIDIInHeader_dtor_def log_def)
  qed
qed

lemma RemoveAll_Out_eq:
  "RemoveAll_Out s =
     s\<lparr>calls := calls s @ map unprep_out (m_HdrQueue_Out s), m_HdrQueue_Out := []\<rparr>"
proof (induction s rule: RemoveAll_Out.induct)
  case (1 s)
  show ?case
  proof (cases "m_HdrQueue_Out s")
    case Nil
    then show ?thesis by (subst RemoveAll_Out.simps) simp
  next
    case (Cons H rest)
    then show ?thesis
      using 1 by (subst RemoveAll_Out.simps) (simp add: CMIDIOutHeader_dtor_def log_def)
  qed
qed

lemma run_queue_fifo_aux:
  "\<exists>cs. calls (run_queue ops s) = calls s @ cs \<and>
        reclaimed cs @ m_HdrQueue (run_queue ops s) = m_HdrQueue s @ submitted ops"
proof (induction ops s rule: run_queue.induct)
  case (1 s)
  then show ?case by simp
next
  case (2 Header ops s)
  then show ?case by (simp add: AddHeader_def)
next
  case (3 ops s)
  show ?case
  proof (cases "m_HdrQueue s")
    case Nil
    then have "RemoveHeader s = s" by (simp add: RemoveHeader_def)
    with 3 Nil show ?thesis by simp
  next
    case (Cons H rest)
    then have c: "calls (RemoveHeader s) = calls s @ [unprep_in H]"
      and q: "m_HdrQueue (RemoveHeader s) = rest"
      by (simp_all add: RemoveHeader_def CMIDIInHeader_dtor_def)
    from 3 obtain cs where
      cs: "calls (run_queue ops (RemoveHeader s)) = calls (RemoveHeader s) @ cs"
        "reclaimed cs @ m_HdrQueue (run_queue ops (RemoveHeader s))
           = m_HdrQueue (RemoveHeader s) @ submitted ops"
      by blast
    have "calls (run_queue (Remove # ops) s) = calls s @ (unprep_in H # cs)"
      using cs(1) c by simp
    moreover have "reclaimed (unprep_in H # cs) @ m_HdrQueue (run_queue (Remove # ops) s)
        = m_HdrQueue s @ submitted (Remove # ops)"
      using cs(2) q Cons by simp
    ultimately show ?thesis by blast
  qed
qed

lemma RemoveHeader_Cons:
  "m_HdrQueue s = Header # rest \<Longrightarrow>
   RemoveHeader s = s\<lparr>calls := calls s @ [unprep_in Header], m_HdrQueue := rest\<rparr>"
  by (simp add: RemoveHeader_def CMIDIInHeader_dtor_def log_def)

lemma RemoveHeader_Nil: "m_HdrQueue s = [] \<Longrightarrow> RemoveHeader s = s"
  by (simp add: RemoveHeader_def)

lemma run_queue_append: "run_queue (xs @ ys) s = run_queue ys (run_queue xs s)"
  by (induction xs s rule: run_queue.induct) simp_all

lemma submitted_append: "submitted (xs @ ys) = submitted xs @ submitted ys"
  by (induction xs rule: submitted.induct) simp_all

lemma submitted_Removes: "submitted (replicate n Remove) = []"
  by (induction n) simp_all

lemma drain_queue:
  "length (m_HdrQueue s) \<le> n \<Longrightarrow> m_HdrQueue (run_queue (replicate n Remove) s) = []"
proof (induction n arbitrary: s)
  case 0
  then show ?case by simp
next
  case (Suc n)
  have "length (m_HdrQueue (RemoveHeader s)) \<le> n"
    using Suc.prems
    by (cases "m_HdrQueue s") (simp_all add: RemoveHeader_Nil RemoveHeader_Cons)
  then show ?case using Suc.IH by simp
qed

text \<open>
  C7. \<open>AddHeader\<close> puts the header at the tail of the queue and calls nothing.
  \<open>RemoveHeader\<close> on a queue with head \<open>H\<close> destroys \<open>H\<close> (its unprepare is the one
  call made) and leaves the rest of the queue; on the empty queue it does nothing.
  So for every script of \<open>AddHeader\<close> and \<open>RemoveHeader\<close> calls, run from any queue,
  the headers reclaimed, in the order of their destruction, followed by the headers
  still queued are the headers queued at the start followed by the headers submitted,
  in the order of submission; and once as many further \<open>RemoveHeader\<close> calls have run
  as headers were left, the queue is empty and the headers reclaimed are all of them,
  in the order of submission.
\<close>

theorem header_queue_fifo:
  "m_HdrQueue (AddHeader Header s) = m_HdrQueue s @ [Header] \<and>
   calls (AddHeader Header s) = calls s \<and>
   (m_HdrQueue s = H # rest \<longrightarrow>
      RemoveHeader s = s\<lparr>calls := calls s @ [unprep_in H], m_HdrQueue := rest\<rparr>) \<and>
   (m_HdrQueue s = [] \<longrightarrow> RemoveHeader s = s) \<and>
   reclaimed (new_calls s (run_queue ops s)) @ m_HdrQueue (run_queue ops s)
     = m_HdrQueue s @ submitted ops \<and>
   m_HdrQueue (run_queue (ops @ replicate (length (m_HdrQueue (run_queue ops s))) Remove) s) = [] \<and>
   reclaimed (new_calls s
      (run_queue (ops @ replicate (length (m_HdrQueue (run_queue ops s))) Remove) s))
     = m_HdrQueue s @ submitted ops"
proof -
  have law: "reclaimed (new_calls s (run_queue xs s)) @ m_HdrQueue (run_queue xs s)
     = m_HdrQueue s @ submitted xs" for xs
  proof -
    obtain cs where "calls (run_queue xs s) = calls s @ cs"
      and "reclaimed cs @ m_HdrQueue (run_queue xs s) = m_HdrQueue s @ submitted xs"
      using run_queue_fifo_aux by blast
    then show ?thesis by simp
  qed
  let ?all = "ops @ replicate (length (m_HdrQueue (run_queue ops s))) Remove"
  have empty: "m_HdrQueue (run_queue ?all s) = []"
    by (simp add: run_queue_append drain_queue)
  have "reclaimed (new_calls s (run_queue ?all s)) @ m_HdrQueue (run_queue ?all s)
      = m_HdrQueue s @ submitted ?all"
    by (rule law)
  then have all: "reclaimed (new_calls s (run_queue ?all s)) = m_HdrQueue s @ submitted ops"
    by (simp only: empty submitted_append submitted_Removes append_Nil2)
  show ?thesis
    using law [of ops] empty all
    by (simp add: AddHeader_def RemoveHeader_Cons RemoveHeader_Nil)
qed

theorem header_queue_fifo_witness:
  "m_HdrQueue (in_dev RECORDING [sysex_hdr 3 100, sysex_hdr 3 200])
     = sysex_hdr 3 100 # [sysex_hdr 3 200] \<and>
   m_HdrQueue (RemoveHeader (in_dev RECORDING [sysex_hdr 3 100, sysex_hdr 3 200]))
     = [sysex_hdr 3 200] \<and>
   calls (RemoveHeader (in_dev RECORDING [sysex_hdr 3 100, sysex_hdr 3 200]))
     = [unprep_in (sysex_hdr 3 100)] \<and>
   m_HdrQueue (in_dev RECORDING []) = [] \<and>
   RemoveHeader (in_dev RECORDING []) = in_dev RECORDING [] \<and>
   reclaimed (new_calls (in_dev RECORDING [])
      (run_queue [Add (sysex_hdr 3 100), Add (sysex_hdr 3 200), Remove, Add (sysex_hdr 3 300)]
         (in_dev RECORDING [])))
     @ m_HdrQueue
      (run_queue [Add (sysex_hdr 3 100), Add (sysex_hdr 3 200), Remove, Add (sysex_hdr 3 300)]
         (in_dev RECORDING []))
     = [sysex_hdr 3 100, sysex_hdr 3 200, sysex_hdr 3 300]"
proof -
  have q: "m_HdrQueue (in_dev RECORDING [sysex_hdr 3 100, sysex_hdr 3 200])
     = sysex_hdr 3 100 # [sysex_hdr 3 200]"
    "m_HdrQueue (in_dev RECORDING []) = []"
    "calls (in_dev RECORDING [sysex_hdr 3 100, sysex_hdr 3 200]) = []"
    by (simp_all add: in_dev_def)
  show ?thesis
    using header_queue_fifo [where s = "in_dev RECORDING [sysex_hdr 3 100, sysex_hdr 3 200]"
        and H = "sysex_hdr 3 100" and rest = "[sysex_hdr 3 200]" and ops = "[]"]
      header_queue_fifo [where s = "in_dev RECORDING []"
        and ops = "[Add (sysex_hdr 3 100), Add (sysex_hdr 3 200), Remove, Add (sysex_hdr 3 300)]"]
    by (simp add: q)
qed

section \<open>The devices: results\<close>

lemma StopRecording_eq:
  "m_State s = RECORDING \<Longrightarrow>
   CMIDIInDevice_StopRecording s =
     s\<lparr>calls := calls s @ [SetEvent, midiInReset (m_DevHandle s)] @ map unprep_in (m_HdrQueue s),
       m_Event := map_option (\<lambda>b. True) (m_Event s), m_HdrQueue := [], m_State := OPENED\<rparr>"
  by (simp add: CMIDIInDevice_StopRecording_def SetEvent_In_def RemoveAll_eq log_def)

text \<open>
  C3. For every device in the \<open>RECORDING\<close> state, whatever its header queue holds, after
  \<open>StopRecording\<close> the header queue is empty and the state is \<open>OPENED\<close>.
\<close>

theorem StopRecording_empties_queue:
  assumes "m_State s = RECORDING"
  shows "m_HdrQueue (CMIDIInDevice_StopRecording s) = [] \<and>
         m_State (CMIDIInDevice_StopRecording s) = OPENED"
  using assms by (simp add: StopRecording_eq)

theorem StopRecording_empties_queue_witness:
  "m_State (in_dev RECORDING [sysex_hdr 3 100, sysex_hdr 3 200]) = RECORDING \<and>
   m_HdrQueue (CMIDIInDevice_StopRecording (in_dev RECORDING [sysex_hdr 3 100, sysex_hdr 3 200])) = [] \<and>
   m_State (CMIDIInDevice_StopRecording (in_dev RECORDING [sysex_hdr 3 100, sysex_hdr 3 200])) = OPENED"
  using StopRecording_empties_queue [of "in_dev RECORDING [sysex_hdr 3 100, sysex_hdr 3 200]"]
  by (simp add: in_dev_def)

subsection \<open>StartRecording\<close>

lemma StartRecording_rejected:
  assumes "m_State s = OPENED" and "thread_created w"
    and "drv_result w (midiInStart (m_DevHandle s)) \<noteq> MMSYSERR_NOERROR"
  shows "CMIDIInDevice_StartRecording w s =
      (Inl (CMIDIInException (drv_result w (midiInStart (m_DevHandle s)))),
       s\<lparr>calls := calls s @ [CreateThread, midiInStart (m_DevHandle s), SetEvent],
         m_Event := map_option (\<lambda>b. True) (m_Event s)\<rparr>)"
  using assms
  by (simp add: CMIDIInDevice_StartRecording_def Let_def SetEvent_In_def log_def)

lemma StartRecording_no_thread:
  assumes "m_State s = OPENED" and "\<not> thread_created w"
  shows "CMIDIInDevice_StartRecording w s = (Inl CMIDIInThreadFailure, log CreateThread s)"
  using assms by (simp add: CMIDIInDevice_StartRecording_def Let_def)

lemma run_append: "run w (xs @ ys) sys = run w ys (run w xs sys)"
  by (induction xs arbitrary: sys) simp_all

lemma six_App: "replicate 6 App = [App, App, App, App, App, App]"
  by (simp add: numeral_eq_Suc)

lemma two_Worker: "replicate 2 (Worker n) = [Worker n, Worker n]"
  by (simp add: numeral_eq_Suc)

lemma HeaderProc_step_keeps:
  assumes "HeaderProc_step pc d = Some (pc', d')"
  shows "m_State d' = m_State d \<and> m_DevHandle d' = m_DevHandle d"
  using assms
  by (cases pc)
    (auto simp: RemoveHeader_def CMIDIInHeader_dtor_def Let_def split: if_splits list.splits)

text \<open>The statements of \<open>StartRecording\<close>, one by one.\<close>

lemma step_AtEntry:
  "app sys = AtEntry \<Longrightarrow>
   StartRecording_step w sys = sys\<lparr>app := (if m_State (dev sys) = OPENED then AtCreateThread
                                 else Finished (Inr ()))\<rparr>"
  by (simp add: StartRecording_step_def)

lemma step_AtCreateThread:
  "app sys = AtCreateThread \<Longrightarrow>
   StartRecording_step w sys =
     (if thread_created w
      then sys\<lparr>dev := log CreateThread (dev sys), app := AtSetRecording,
               workers := workers sys @ [AtWhile]\<rparr>
      else sys\<lparr>dev := log CreateThread (dev sys), app := Finished (Inl CMIDIInThreadFailure)\<rparr>)"
  by (simp add: StartRecording_step_def)

lemma step_AtSetRecording:
  "app sys = AtSetRecording \<Longrightarrow>
   StartRecording_step w sys = sys\<lparr>dev := (dev sys)\<lparr>m_State := RECORDING\<rparr>, app := AtStart\<rparr>"
  by (simp add: StartRecording_step_def)

lemma step_AtStart:
  "app sys = AtStart \<Longrightarrow>
   StartRecording_step w sys =
     sys\<lparr>dev := log (midiInStart (m_DevHandle (dev sys))) (dev sys),
         app := (if drv_result w (midiInStart (m_DevHandle (dev sys))) \<noteq> MMSYSERR_NOERROR
                 then AtRollback (drv_result w (midiInStart (m_DevHandle (dev sys))))
                 else Finished (Inr ()))\<rparr>"
  by (simp add: StartRecording_step_def Let_def)

lemma step_AtRollback:
  "app sys = AtRollback r \<Longrightarrow>
   StartRecording_step w sys = sys\<lparr>dev := (dev sys)\<lparr>m_State := OPENED\<rparr>, app := AtSetEvent r\<rparr>"
  by (simp add: StartRecording_step_def)

lemma step_AtSetEvent:
  "app sys = AtSetEvent r \<Longrightarrow>
   StartRecording_step w sys =
     sys\<lparr>dev := SetEvent_In (dev sys), app := Finished (Inl (CMIDIInException r))\<rparr>"
  by (simp add: StartRecording_step_def)

lemma step_Finished:
  "app sys = Finished res \<Longrightarrow> StartRecording_step w sys = sys"
  by (simp add: StartRecording_step_def)

lemmas step_App =
  step_AtEntry step_AtCreateThread step_AtSetRecording step_AtStart step_AtRollback
  step_AtSetEvent step_Finished

lemma StartRecording_steps:
  "run w (replicate 6 App) (enter s ws) =
     \<lparr>dev = snd (CMIDIInDevice_StartRecording w s),
      app = Finished (fst (CMIDIInDevice_StartRecording w s)),
      workers = (if m_State s = OPENED \<and> thread_created w then ws @ [AtWhile] else ws)\<rparr>"
proof (cases "m_State s = OPENED")
  case False
  then show ?thesis
    by (simp add: six_App enter_def step_App CMIDIInDevice_StartRecording_def)
next
  case o: True
  show ?thesis
  proof (cases "thread_created w")
    case False
    with o show ?thesis
      by (simp add: six_App enter_def step_App StartRecording_no_thread)
  next
    case t: True
    show ?thesis
    proof (cases "drv_result w (midiInStart (m_DevHandle s)) = MMSYSERR_NOERROR")
      case True
      with o t show ?thesis
        by (simp add: six_App enter_def step_App CMIDIInDevice_StartRecording_def Let_def log_def)
    next
      case False
      with o t show ?thesis
        by (simp add: six_App enter_def step_App StartRecording_rejected SetEvent_In_def log_def)
    qed
  qed
qed

lemma rollback_first_App: "rollback_first sys \<Longrightarrow> rollback_first (step w App sys)"
  by (cases "app sys")
    (auto simp: rollback_first_def step_App SetEvent_In_def split: sum.splits)

lemma rollback_first_Worker:
  assumes "rollback_first sys"
  shows "rollback_first (step w (Worker i) sys)"
proof (cases "i < length (workers sys)")
  case False
  with assms show ?thesis by simp
next
  case True
  show ?thesis
  proof (cases "HeaderProc_step (workers sys ! i) (dev sys)")
    case None
    with assms True show ?thesis by simp
  next
    case (Some a)
    obtain pc' d' where a: "a = (pc', d')" by (cases a)
    from HeaderProc_step_keeps [OF Some [unfolded a]]
    have k: "m_State d' = m_State (dev sys)" by simp
    have s: "step w (Worker i) sys = sys\<lparr>dev := d', workers := (workers sys)[i := pc']\<rparr>"
      using True Some a by simp
    show ?thesis
      unfolding s using assms k
      by (cases "app sys") (auto simp: rollback_first_def split: sum.splits)
  qed
qed

lemma rollback_first_run: "rollback_first sys \<Longrightarrow> rollback_first (run w sch sys)"
proof (induction sch arbitrary: sys)
  case Nil
  then show ?case by simp
next
  case (Cons c sch)
  have "rollback_first (step w c sys)"
    using Cons.prems by (cases c) (simp_all only: rollback_first_App rollback_first_Worker)
  then show ?case using Cons.IH by simp
qed

lemma sole_worker_App:
  assumes "sole_worker h R n sys" and "thread_created w"
    and "drv_result w (midiInStart h) = R" and "R \<noteq> MMSYSERR_NOERROR"
  shows "sole_worker h R n (step w App sys)"
  using assms
  by (cases "app sys")
    (auto simp: sole_worker_def step_App SetEvent_In_def nth_append split: option.splits)

lemma sole_worker_Worker:
  assumes "sole_worker h R n sys"
  shows "sole_worker h R n (step w (Worker i) sys)"
proof (cases "i < length (workers sys)")
  case False
  with assms show ?thesis by simp
next
  case True
  show ?thesis
  proof (cases "HeaderProc_step (workers sys ! i) (dev sys)")
    case None
    with assms True show ?thesis by simp
  next
    case (Some a)
    obtain pc' d' where a: "a = (pc', d')" by (cases a)
    note k = HeaderProc_step_keeps [OF Some [unfolded a]]
    have s: "step w (Worker i) sys = sys\<lparr>dev := d', workers := (workers sys)[i := pc']\<rparr>"
      using True Some a by simp
    have old: "take n (workers sys) = replicate n Returned"
      using assms by (simp add: sole_worker_def)
    have "\<not> i < n"
    proof
      assume "i < n"
      then have "workers sys ! i = take n (workers sys) ! i" by simp
      also have "\<dots> = Returned" using \<open>i < n\<close> by (simp add: old)
      finally show False using Some by simp
    qed
    moreover have "length (workers sys) \<le> Suc n"
      using assms by (cases "app sys") (auto simp: sole_worker_def)
    ultimately have i: "i = n" and len: "length (workers sys) = Suc n"
      using True by simp_all
    have upd: "take n ((workers sys)[n := pc']) = replicate n Returned"
      using old by simp
    have ev: "\<not> (m_Event d' = Some False \<and> pc' = AtWait)"
      if f: "app sys = Finished res" for res
    proof -
      from f assms have o: "m_State (dev sys) = OPENED"
        and nb: "\<not> (m_Event (dev sys) = Some False \<and> workers sys ! n = AtWait)"
        by (simp_all add: sole_worker_def)
      show ?thesis
        using Some a i o nb
        by (cases "workers sys ! n") (auto simp: Let_def split: if_splits)
    qed
    have s': "step w (Worker i) sys = sys\<lparr>dev := d', workers := (workers sys)[n := pc']\<rparr>"
      using s i by simp
    show ?thesis
      unfolding s'
      using assms k upd ev len
      by (cases "app sys") (auto simp: sole_worker_def)
  qed
qed

lemma sole_worker_run:
  assumes "thread_created w" and "drv_result w (midiInStart h) = R" and "R \<noteq> MMSYSERR_NOERROR"
  shows "sole_worker h R n sys \<Longrightarrow> sole_worker h R n (run w sch sys)"
proof (induction sch arbitrary: sys)
  case Nil
  then show ?case by simp
next
  case (Cons c sch)
  have "sole_worker h R n (step w c sys)"
  proof (cases c)
    case App
    then show ?thesis using sole_worker_App [OF Cons.prems assms] by simp
  next
    case (Worker i)
    then show ?thesis using sole_worker_Worker [OF Cons.prems] by simp
  qed
  then show ?case using Cons.IH by simp
qed


lemma sole_worker_finishes:
  assumes "sole_worker h R n sys" and "thread_created w"
    and "drv_result w (midiInStart h) = R" and "R \<noteq> MMSYSERR_NOERROR"
  shows "app (run w (replicate 6 App) sys) = Finished (Inl (CMIDIInException R))"
  using assms
  by (cases "app sys") (auto simp: six_App sole_worker_def step_App)

lemma sole_worker_returns:
  assumes "sole_worker h R n sys" and "app sys = Finished res"
  shows "workers (run w (replicate 2 (Worker n)) sys) ! n = Returned \<and>
         app (run w (replicate 2 (Worker n)) sys) = Finished res"
  using assms
  by (cases "workers sys ! n"; cases "m_Event (dev sys) = Some False")
    (auto simp: two_Worker sole_worker_def Let_def)

lemma sole_worker_enter:
  assumes "m_State s = OPENED" and "\<forall>p\<in>set ws. p = Returned"
  shows "sole_worker (m_DevHandle s) R (length ws) (enter s ws)"
proof -
  have "ws = replicate (length ws) Returned"
    using assms(2) by (simp add: replicate_length_same)
  then show ?thesis
    using assms(1) by (simp add: sole_worker_def enter_def)
qed

lemma rollback_first_enter: "rollback_first (enter s ws)"
  by (simp add: rollback_first_def enter_def)

text \<open>
  C4, as the code has it. If \<open>StartRecording\<close> is called in the \<open>OPENED\<close> state and
  throws, the device ends in the \<open>OPENED\<close> state. When the thread could not be created
  the exception is \<open>CMIDIInThreadFailure\<close> and nothing but \<open>::CreateThread\<close> was called.
  When the driver rejects \<open>midiInStart\<close> the exception carries the driver's code and
  the event is set exactly once; in every interleaving with the workers the state is
  back to \<open>OPENED\<close> before the event is set. If every worker of an earlier
  \<open>StartRecording\<close> has returned, then under every schedule, once the application
  thread has left and the new worker has been given two steps, that worker has
  returned. The statements of \<open>StartRecording\<close> run alone are the function.
\<close>

theorem StartRecording_failure:
  assumes "m_State s = OPENED"
    and "fst (CMIDIInDevice_StartRecording w s) = Inl e"
  shows "m_State (snd (CMIDIInDevice_StartRecording w s)) = OPENED \<and>
    (\<not> thread_created w \<longrightarrow>
       e = CMIDIInThreadFailure \<and>
       new_calls s (snd (CMIDIInDevice_StartRecording w s)) = [CreateThread]) \<and>
    (thread_created w \<longrightarrow>
       e = CMIDIInException (drv_result w (midiInStart (m_DevHandle s))) \<and>
       drv_result w (midiInStart (m_DevHandle s)) \<noteq> MMSYSERR_NOERROR \<and>
       new_calls s (snd (CMIDIInDevice_StartRecording w s))
         = [CreateThread, midiInStart (m_DevHandle s), SetEvent] \<and>
       count_list (new_calls s (snd (CMIDIInDevice_StartRecording w s))) SetEvent = 1 \<and>
       ((\<forall>p\<in>set ws. p = Returned) \<longrightarrow>
          app (run w (sch @ replicate 6 App @ replicate 2 (Worker (length ws))) (enter s ws))
            = Finished (Inl e) \<and>
          workers (run w (sch @ replicate 6 App @ replicate 2 (Worker (length ws))) (enter s ws))
            ! length ws = Returned)) \<and>
    run w (replicate 6 App) (enter s ws) =
      \<lparr>dev = snd (CMIDIInDevice_StartRecording w s), app = Finished (Inl e),
       workers = (if thread_created w then ws @ [AtWhile] else ws)\<rparr> \<and>
    (app (run w sch (enter s ws)) = AtSetEvent r \<or>
     app (run w sch (enter s ws)) = Finished (Inl e') \<longrightarrow>
       m_State (dev (run w sch (enter s ws))) = OPENED)"
proof -
  have steps: "run w (replicate 6 App) (enter s ws) =
      \<lparr>dev = snd (CMIDIInDevice_StartRecording w s), app = Finished (Inl e),
       workers = (if thread_created w then ws @ [AtWhile] else ws)\<rparr>"
    using assms by (simp add: StartRecording_steps)
  have order: "app (run w sch (enter s ws)) = AtSetEvent r \<or>
     app (run w sch (enter s ws)) = Finished (Inl e') \<longrightarrow>
       m_State (dev (run w sch (enter s ws))) = OPENED"
    using rollback_first_run [OF rollback_first_enter, of w sch s ws]
    by (auto simp: rollback_first_def)
  show ?thesis
  proof (cases "thread_created w")
    case False
    with assms steps order show ?thesis
      by (simp add: StartRecording_no_thread)
  next
    case True
    let ?R = "drv_result w (midiInStart (m_DevHandle s))"
    from assms True have R: "?R \<noteq> MMSYSERR_NOERROR"
      by (auto simp: CMIDIInDevice_StartRecording_def Let_def split: if_splits)
    note eq = StartRecording_rejected [OF assms(1) True R]
    from assms(2) have e: "e = CMIDIInException ?R"
      by (simp add: eq)
    have exits: "app (run w (sch @ replicate 6 App @ replicate 2 (Worker (length ws))) (enter s ws))
            = Finished (Inl e) \<and>
          workers (run w (sch @ replicate 6 App @ replicate 2 (Worker (length ws))) (enter s ws))
            ! length ws = Returned"
      if ws: "\<forall>p\<in>set ws. p = Returned"
    proof -
      let ?n = "length ws"
      have 0: "sole_worker (m_DevHandle s) ?R ?n (enter s ws)"
        using assms(1) ws by (rule sole_worker_enter)
      have 1: "sole_worker (m_DevHandle s) ?R ?n (run w sch (enter s ws))"
        using True refl R 0 by (rule sole_worker_run)
      have 2: "sole_worker (m_DevHandle s) ?R ?n (run w (replicate 6 App) (run w sch (enter s ws)))"
        using True refl R 1 by (rule sole_worker_run)
      have 3: "app (run w (replicate 6 App) (run w sch (enter s ws))) = Finished (Inl e)"
        unfolding e using 1 True refl R by (rule sole_worker_finishes)
      show ?thesis
        using sole_worker_returns [OF 2 3, of w] by (simp add: run_append)
    qed
    show ?thesis
      using steps order exits R e True assms(1) by (simp add: eq)
  qed
qed

theorem StartRecording_failure_witness:
  "m_State (in_dev OPENED [sysex_hdr 3 100]) = OPENED \<and>
   fst (CMIDIInDevice_StartRecording (refusing (midiInStart 3)) (in_dev OPENED [sysex_hdr 3 100]))
     = Inl (CMIDIInException 11) \<and>
   thread_created (refusing (midiInStart 3)) \<and>
   m_State (snd (CMIDIInDevice_StartRecording (refusing (midiInStart 3))
      (in_dev OPENED [sysex_hdr 3 100]))) = OPENED \<and>
   count_list (new_calls (in_dev OPENED [sysex_hdr 3 100])
      (snd (CMIDIInDevice_StartRecording (refusing (midiInStart 3))
         (in_dev OPENED [sysex_hdr 3 100])))) SetEvent = 1 \<and>
   workers (run (refusing (midiInStart 3))
      ([App, App, App, Worker 1, App] @ replicate 6 App @ replicate 2 (Worker (length [Returned])))
      (enter (in_dev OPENED [sysex_hdr 3 100]) [Returned])) ! length [Returned] = Returned \<and>
   fst (CMIDIInDevice_StartRecording (no_thread accepting) (in_dev OPENED [sysex_hdr 3 100]))
     = Inl CMIDIInThreadFailure \<and>
   m_State (snd (CMIDIInDevice_StartRecording (no_thread accepting)
      (in_dev OPENED [sysex_hdr 3 100]))) = OPENED"
proof -
  have o: "m_State (in_dev OPENED [sysex_hdr 3 100]) = OPENED"
    by (simp add: in_dev_def)
  have f: "fst (CMIDIInDevice_StartRecording (refusing (midiInStart 3))
      (in_dev OPENED [sysex_hdr 3 100])) = Inl (CMIDIInException 11)"
    by (simp add: CMIDIInDevice_StartRecording_def refusing_def accepting_def in_dev_def
        MMSYSERR_NOERROR_def Let_def)
  have g: "fst (CMIDIInDevice_StartRecording (no_thread accepting)
      (in_dev OPENED [sysex_hdr 3 100])) = Inl CMIDIInThreadFailure"
    by (simp add: CMIDIInDevice_StartRecording_def no_thread_def accepting_def in_dev_def Let_def)
  have t: "thread_created (refusing (midiInStart 3))"
    "\<not> thread_created (no_thread accepting)"
    by (simp_all add: refusing_def accepting_def no_thread_def)
  have ws: "\<forall>p\<in>set [Returned]. p = Returned"
    by simp
  show ?thesis
    using StartRecording_failure [OF o f, where ws = "[Returned]"
        and sch = "[App, App, App, Worker 1, App]"]
      StartRecording_failure [OF o g, where ws = "[]" and sch = "[]"] o f g t ws
    by simp
qed

lemma blocked_sys_eq:
  "blocked_sys =
     \<lparr>dev = \<lparr>calls = [CreateThread, midiInStart 3, SetEvent, midiInReset 3, CreateThread,
                      midiInStart 3, SetEvent],
             m_DevHandle = 3, m_Event = Some False, m_Receiver = 1, m_HdrQueue = [],
             m_State = OPENED\<rparr>,
      app = Finished (Inl (CMIDIInException 11)), workers = [Returned, AtWait]\<rparr>"
  by code_simp

lemma stale_sys_eq:
  "stale_sys =
     \<lparr>dev = \<lparr>calls = [CreateThread, midiInStart 3, SetEvent, midiInReset 3],
             m_DevHandle = 3, m_Event = Some True, m_Receiver = 1, m_HdrQueue = [],
             m_State = OPENED\<rparr>,
      app = AtEntry, workers = [AtWhile]\<rparr>"
  by code_simp

text \<open>
  C4 as claimed fails when a worker of an earlier \<open>StartRecording\<close> is still alive:
  the event is auto-reset, and the one \<open>::SetEvent\<close> releases one waiting thread. In
  \<open>blocked_sys\<close> the rejected \<open>StartRecording\<close> has thrown, the state is \<open>OPENED\<close>, the
  event was set once, the old worker has taken it and returned, and the worker that
  was spawned is waiting on an event that nobody will set: no thread can move.
\<close>

theorem StartRecording_spawned_worker_blocked:
  "app stale_sys = AtEntry \<and> m_State (dev stale_sys) = OPENED \<and>
   workers stale_sys = [AtWhile] \<and>
   app blocked_sys = Finished (Inl (CMIDIInException 11)) \<and>
   m_State (dev blocked_sys) = OPENED \<and>
   count_list (new_calls (dev stale_sys) (dev blocked_sys)) SetEvent = 1 \<and>
   workers blocked_sys = [Returned, AtWait] \<and>
   HeaderProc_step AtWait (dev blocked_sys) = None \<and>
   step (refusing (midiInStart 3)) App blocked_sys = blocked_sys \<and>
   step (refusing (midiInStart 3)) (Worker 0) blocked_sys = blocked_sys \<and>
   step (refusing (midiInStart 3)) (Worker 1) blocked_sys = blocked_sys"
  by (simp add: blocked_sys_eq stale_sys_eq new_calls_def step_App)

text \<open>And it stays so under every schedule.\<close>

lemma blocked_sys_stuck: "run (refusing (midiInStart 3)) sch blocked_sys = blocked_sys"
proof (induction sch)
  case Nil
  show ?case by simp
next
  case (Cons c sch)
  have "step (refusing (midiInStart 3)) c blocked_sys = blocked_sys"
  proof (cases c)
    case App
    then show ?thesis by (simp add: blocked_sys_eq step_App)
  next
    case (Worker i)
    then show ?thesis
      by (cases i; cases "i - 1") (simp_all add: blocked_sys_eq)
  qed
  with Cons show ?case by simp
qed

subsection \<open>AddSysExBuffer and the long SendMsg when the driver rejects the buffer\<close>

lemma AddSysExBuffer_rejected:
  assumes "alloc_ok w"
    and "drv_result w (midiInPrepareHeader (m_DevHandle s)
           \<lparr>lpData = Buffer, dwBufferLength = BufferLength, dwFlags = 0\<rparr>) = MMSYSERR_NOERROR"
    and "drv_result w (midiInAddBuffer (m_DevHandle s)
           \<lparr>lpData = Buffer, dwBufferLength = BufferLength, dwFlags = 0\<rparr>) = r"
    and "r \<noteq> MMSYSERR_NOERROR"
  shows "CMIDIInDevice_AddSysExBuffer w Buffer BufferLength s =
     (Inl (CMIDIInException r),
      s\<lparr>calls := calls s @
        [midiInPrepareHeader (m_DevHandle s)
           \<lparr>lpData = Buffer, dwBufferLength = BufferLength, dwFlags = 0\<rparr>,
         midiInAddBuffer (m_DevHandle s)
           \<lparr>lpData = Buffer, dwBufferLength = BufferLength, dwFlags = 0\<rparr>]\<rparr>)"
  using assms
  by (simp add: CMIDIInDevice_AddSysExBuffer_def CMIDIInHeader_ctor_def
      CMIDIInHeader_AddSysExBuffer_def catch_CMIDIInDevice_def log_def Let_def)

lemma SendMsg_Long_rejected:
  assumes "m_State_Out s = OPENED_Out" and "alloc_ok w"
    and "drv_result w (midiOutPrepareHeader (m_DevHandle_Out s)
           \<lparr>lpData = Msg, dwBufferLength = MsgLength, dwFlags = 0\<rparr>) = MMSYSERR_NOERROR"
    and "drv_result w (midiOutLongMsg (m_DevHandle_Out s)
           \<lparr>lpData = Msg, dwBufferLength = MsgLength, dwFlags = 0\<rparr>) \<noteq> MMSYSERR_NOERROR"
  shows "CMIDIOutDevice_SendMsg_Long w Msg MsgLength s =
     (Inr (),
      s\<lparr>calls := calls s @
        [midiOutPrepareHeader (m_DevHandle_Out s)
           \<lparr>lpData = Msg, dwBufferLength = MsgLength, dwFlags = 0\<rparr>,
         midiOutLongMsg (m_DevHandle_Out s)
           \<lparr>lpData = Msg, dwBufferLength = MsgLength, dwFlags = 0\<rparr>,
         midiOutUnprepareHeader (m_DevHandle_Out s)
           \<lparr>lpData = Msg, dwBufferLength = MsgLength, dwFlags = 0\<rparr>]\<rparr>)"
  using assms
  by (simp add: CMIDIOutDevice_SendMsg_Long_def CMIDIOutHeader_ctor_def
      CMIDIOutHeader_SendMsg_def CMIDIOutHeader_dtor_def log_def Let_def)

text \<open>
  C2. The claim: when the driver rejects the submission of a header that was prepared,
  the operation fails with an error and the header is destroyed, its unprepare
  executed. The code does half of it on each side. \<open>CMIDIInDevice::AddSysExBuffer\<close>,
  with \<open>midiInAddBuffer\<close> rejected, throws the driver's error, and its history ends with
  the rejected call: the header is never unprepared, because the handler that deletes
  it names \<open>CMIDIInDevice\<close> and not \<open>CMIDIInException\<close>. The long
  \<open>CMIDIOutDevice::SendMsg\<close>, with \<open>midiOutLongMsg\<close> rejected, unprepares the header and
  then returns as if the message had been sent: its handler has no \<open>throw\<close>.
\<close>

theorem rejected_submission_divergence:
  "CMIDIInDevice_AddSysExBuffer (refusing (midiInAddBuffer 3 (hdr_MIDIHdr (sysex_hdr 3 100))))
       100 64 (in_dev RECORDING [])
     = (Inl (CMIDIInException 11),
        (in_dev RECORDING [])\<lparr>calls := [midiInPrepareHeader 3 (hdr_MIDIHdr (sysex_hdr 3 100)),
                                         midiInAddBuffer 3 (hdr_MIDIHdr (sysex_hdr 3 100))]\<rparr>) \<and>
   CMIDIOutDevice_SendMsg_Long (refusing (midiOutLongMsg 3 (hdr_MIDIHdr (sysex_hdr 3 100))))
       100 64 (out_dev OPENED_Out [])
     = (Inr (),
        (out_dev OPENED_Out [])\<lparr>calls := [midiOutPrepareHeader 3 (hdr_MIDIHdr (sysex_hdr 3 100)),
                                           midiOutLongMsg 3 (hdr_MIDIHdr (sysex_hdr 3 100)),
                                           midiOutUnprepareHeader 3 (hdr_MIDIHdr (sysex_hdr 3 100))]\<rparr>)"
  by (simp add: AddSysExBuffer_rejected SendMsg_Long_rejected refusing_def accepting_def
      in_dev_def out_dev_def sysex_hdr_def MMSYSERR_NOERROR_def)

subsection \<open>Close\<close>

lemma Close_OPENED:
  assumes "m_State s = OPENED"
  shows "CMIDIInDevice_Close w s =
     (if drv_result w (midiInClose (m_DevHandle s)) = MMSYSERR_NOERROR
      then (Inr (), s\<lparr>calls := calls s @ [midiInClose (m_DevHandle s)], m_State := CLOSED\<rparr>)
      else (Inl (CMIDIInException (drv_result w (midiInClose (m_DevHandle s)))),
            s\<lparr>calls := calls s @ [midiInClose (m_DevHandle s)]\<rparr>))"
  using assms by (simp add: CMIDIInDevice_Close_def Let_def log_def)

lemma Close_CLOSED:
  "m_State s = CLOSED \<Longrightarrow> CMIDIInDevice_Close w s = (Inr (), s)"
  by (simp add: CMIDIInDevice_Close_def)


lemma Close_Out_OPENED:
  assumes "m_State_Out t = OPENED_Out"
  shows "CMIDIOutDevice_Close w t =
     (Inr (), t\<lparr>calls := calls t @ SetEvent # map unprep_out (m_HdrQueue_Out t)
                    @ [midiOutClose (m_DevHandle_Out t)],
                m_Event_Out := map_option (\<lambda>b. True) (m_Event_Out t),
                m_HdrQueue_Out := [], m_State_Out := CLOSED_Out\<rparr>)"
  using assms
  by (simp add: CMIDIOutDevice_Close_def Let_def SetEvent_Out_def RemoveAll_Out_eq log_def)

lemma Close_Out_CLOSED:
  "m_State_Out t = CLOSED_Out \<Longrightarrow> CMIDIOutDevice_Close w t = (Inr (), t)"
  by (simp add: CMIDIOutDevice_Close_def)

text \<open>
  C5, as the code has it. \<open>CMIDIInDevice::Close\<close> in the \<open>OPENED\<close> state calls
  \<open>midiInClose\<close> on the handle and nothing else; when the driver accepts, it returns and
  the state is \<open>CLOSED\<close>; when the driver reports a failure, it throws
  \<open>CMIDIInException\<close> with the driver's code and the state stays \<open>OPENED\<close>.
  \<open>CMIDIOutDevice::Close\<close> in the \<open>OPENED\<close> state sets the state to \<open>CLOSED\<close>, signals the
  worker, destroys every queued header and calls \<open>midiOutClose\<close>; it returns without an
  exception whatever the driver answers.
\<close>

theorem Close_of_opened_device:
  assumes "m_State s = OPENED" and "m_State_Out t = OPENED_Out"
  shows "new_calls s (snd (CMIDIInDevice_Close w s)) = [midiInClose (m_DevHandle s)] \<and>
     (drv_result w (midiInClose (m_DevHandle s)) = MMSYSERR_NOERROR \<longrightarrow>
        fst (CMIDIInDevice_Close w s) = Inr () \<and>
        m_State (snd (CMIDIInDevice_Close w s)) = CLOSED) \<and>
     (drv_result w (midiInClose (m_DevHandle s)) \<noteq> MMSYSERR_NOERROR \<longrightarrow>
        fst (CMIDIInDevice_Close w s)
          = Inl (CMIDIInException (drv_result w (midiInClose (m_DevHandle s)))) \<and>
        m_State (snd (CMIDIInDevice_Close w s)) = OPENED) \<and>
     fst (CMIDIOutDevice_Close w t) = Inr () \<and>
     m_State_Out (snd (CMIDIOutDevice_Close w t)) = CLOSED_Out \<and>
     m_HdrQueue_Out (snd (CMIDIOutDevice_Close w t)) = [] \<and>
     new_calls t (snd (CMIDIOutDevice_Close w t))
       = SetEvent # map unprep_out (m_HdrQueue_Out t) @ [midiOutClose (m_DevHandle_Out t)]"
  using assms by (simp add: Close_OPENED Close_Out_OPENED)

theorem Close_of_opened_device_witness:
  "m_State (in_dev OPENED []) = OPENED \<and>
   m_State_Out (out_dev OPENED_Out [sysex_hdr 3 100]) = OPENED_Out \<and>
   drv_result (refusing (midiInClose 3)) (midiInClose 3) \<noteq> MMSYSERR_NOERROR \<and>
   fst (CMIDIInDevice_Close (refusing (midiInClose 3)) (in_dev OPENED []))
     = Inl (CMIDIInException 11) \<and>
   m_State (snd (CMIDIInDevice_Close (refusing (midiInClose 3)) (in_dev OPENED []))) = OPENED \<and>
   drv_result accepting (midiInClose 3) = MMSYSERR_NOERROR \<and>
   fst (CMIDIInDevice_Close accepting (in_dev OPENED [])) = Inr () \<and>
   m_State (snd (CMIDIInDevice_Close accepting (in_dev OPENED []))) = CLOSED \<and>
   fst (CMIDIOutDevice_Close accepting (out_dev OPENED_Out [sysex_hdr 3 100])) = Inr () \<and>
   m_State_Out (snd (CMIDIOutDevice_Close accepting (out_dev OPENED_Out [sysex_hdr 3 100])))
     = CLOSED_Out"
proof -
  have i: "m_State (in_dev OPENED []) = OPENED"
    and o: "m_State_Out (out_dev OPENED_Out [sysex_hdr 3 100]) = OPENED_Out"
    and h: "m_DevHandle (in_dev OPENED []) = 3"
    by (simp_all add: in_dev_def out_dev_def)
  have r: "drv_result (refusing (midiInClose 3)) (midiInClose 3) = 11"
    "drv_result accepting (midiInClose 3) = MMSYSERR_NOERROR"
    by (simp_all add: refusing_def accepting_def)
  show ?thesis
    using Close_of_opened_device [OF i o, of "refusing (midiInClose 3)"]
      Close_of_opened_device [OF i o, of accepting]
    by (simp add: i o h r MMSYSERR_NOERROR_def)
qed

text \<open>
  C5 as claimed fails on the output side: an open output device, a driver whose
  \<open>midiOutClose\<close> reports a failure, and \<open>Close\<close> returns without an exception.
\<close>

theorem Close_Out_reports_no_failure:
  "m_State_Out (out_dev OPENED_Out []) = OPENED_Out \<and>
   drv_result (refusing (midiOutClose 3)) (midiOutClose 3) \<noteq> MMSYSERR_NOERROR \<and>
   fst (CMIDIOutDevice_Close (refusing (midiOutClose 3)) (out_dev OPENED_Out [])) = Inr ()"
  by (simp add: Close_Out_OPENED out_dev_def refusing_def accepting_def MMSYSERR_NOERROR_def)


lemma Close_Out_cases:
  "CMIDIOutDevice_Close w t = (Inr (), snd (CMIDIOutDevice_Close w t)) \<and>
   calls (snd (CMIDIOutDevice_Close w t)) = calls t @ (if m_State_Out t = OPENED_Out
         then SetEvent # map unprep_out (m_HdrQueue_Out t) @ [midiOutClose (m_DevHandle_Out t)]
         else []) \<and>
   m_State_Out (snd (CMIDIOutDevice_Close w t)) = CLOSED_Out"
  by (cases "m_State_Out t") (simp_all add: Close_Out_CLOSED Close_Out_OPENED)

subsection \<open>Open\<close>

lemma Open_In_eq:
  "CMIDIInDevice_Open w DeviceId s =
    (case fst (CMIDIInDevice_Close w s) of
       Inl e \<Rightarrow> (Inl e, snd (CMIDIInDevice_Close w s))
     | Inr u \<Rightarrow>
        (if drv_result w (midiInOpen DeviceId) = MMSYSERR_NOERROR
         then (Inr (), (log (midiInOpen DeviceId) (snd (CMIDIInDevice_Close w s)))
                 \<lparr>m_DevHandle := opened_handle w DeviceId, m_State := OPENED\<rparr>)
         else (Inl (CMIDIInException (drv_result w (midiInOpen DeviceId))),
               log (midiInOpen DeviceId) (snd (CMIDIInDevice_Close w s)))))"
  by (simp add: CMIDIInDevice_Open_def Let_def split: prod.splits sum.splits)

lemma Open_Out_eq:
  "CMIDIOutDevice_Open w DeviceId t =
    (if \<not> thread_created w
     then (Inl CMIDIOutThreadFailure, log CreateThread (snd (CMIDIOutDevice_Close w t)))
     else if drv_result w (midiOutOpen DeviceId) = MMSYSERR_NOERROR
     then (Inr (), (log (midiOutOpen DeviceId) (log CreateThread (snd (CMIDIOutDevice_Close w t))))
             \<lparr>m_DevHandle_Out := opened_handle w DeviceId, m_State_Out := OPENED_Out\<rparr>)
     else (Inl (CMIDIOutException (drv_result w (midiOutOpen DeviceId))),
           SetEvent_Out (log (midiOutOpen DeviceId)
             (log CreateThread (snd (CMIDIOutDevice_Close w t))))))"
proof -
  have c: "CMIDIOutDevice_Close w t = (Inr (), snd (CMIDIOutDevice_Close w t))"
    using Close_Out_cases [of w t] by blast
  show ?thesis
    unfolding CMIDIOutDevice_Open_def by (subst c) (simp add: Let_def)
qed



subsection \<open>The constructors that open the device\<close>

lemma CreateEvent_In_failed:
  "\<not> event_created w \<Longrightarrow>
   CMIDIInDevice_CreateEvent w s = (False, log CreateEvent (s\<lparr>m_Event := None\<rparr>))"
  by (simp add: CMIDIInDevice_CreateEvent_def Let_def)

lemma CreateEvent_Out_failed:
  "\<not> event_created w \<Longrightarrow>
   CMIDIOutDevice_CreateEvent w t = (False, log CreateEvent (t\<lparr>m_Event_Out := None\<rparr>))"
  by (simp add: CMIDIOutDevice_CreateEvent_def Let_def)

lemma ctor_In_eq:
  assumes "\<not> event_created w" and "drv_result w (midiInOpen DeviceId) = MMSYSERR_NOERROR"
  shows "CMIDIInDevice_ctor w DeviceId Receiver =
    (if drv_result w (midiInClose (opened_handle w DeviceId)) = MMSYSERR_NOERROR
     then (Inl CMIDIInEventFailure,
           \<lparr>calls = [midiInOpen DeviceId, CreateEvent, midiInClose (opened_handle w DeviceId)],
            m_DevHandle = opened_handle w DeviceId, m_Event = None, m_Receiver = Receiver,
            m_HdrQueue = [], m_State = CLOSED\<rparr>)
     else (Inl (CMIDIInException (drv_result w (midiInClose (opened_handle w DeviceId)))),
           \<lparr>calls = [midiInOpen DeviceId, CreateEvent, midiInClose (opened_handle w DeviceId)],
            m_DevHandle = opened_handle w DeviceId, m_Event = None, m_Receiver = Receiver,
            m_HdrQueue = [], m_State = OPENED\<rparr>))"
  using assms
  by (simp add: CMIDIInDevice_ctor_def Open_In_eq Close_CLOSED Close_OPENED
      CreateEvent_In_failed log_def)

lemma ctor_Out_eq:
  assumes "\<not> event_created w" and "thread_created w"
    and "drv_result w (midiOutOpen DeviceId) = MMSYSERR_NOERROR"
  shows "CMIDIOutDevice_ctor w DeviceId =
    (Inl CMIDIOutEventFailure,
     \<lparr>calls = [CreateThread, midiOutOpen DeviceId, CreateEvent, SetEvent,
               midiOutClose (opened_handle w DeviceId)],
      m_DevHandle_Out = opened_handle w DeviceId, m_Event_Out = None,
      m_HdrQueue_Out = [], m_State_Out = CLOSED_Out\<rparr>)"
  using assms
  by (simp add: CMIDIOutDevice_ctor_def Open_Out_eq Close_Out_CLOSED Close_Out_OPENED
      CreateEvent_Out_failed log_def)

text \<open>
  C9, as the code has it. When the constructor has opened the device and
  \<open>::CreateEvent\<close> fails, it calls \<open>Close\<close> before it throws: the driver's close call on
  the handle just opened is the last call made. In \<open>CMIDIOutDevice\<close> the exception is
  then \<open>CMIDIOutEventFailure\<close> and the state is \<open>CLOSED\<close>. In \<open>CMIDIInDevice\<close> the same
  holds (\<open>CMIDIInEventFailure\<close>, \<open>CLOSED\<close>) when the driver accepts the close; when the
  driver reports a failure, the exception of \<open>Close\<close> leaves the constructor in place of
  \<open>CMIDIInEventFailure\<close>, and the state is still \<open>OPENED\<close>.
\<close>

theorem ctor_event_failure:
  assumes "\<not> event_created w"
  shows
    "(drv_result w (midiInOpen DeviceId) = MMSYSERR_NOERROR \<longrightarrow>
        calls (snd (CMIDIInDevice_ctor w DeviceId Receiver))
          = [midiInOpen DeviceId, CreateEvent, midiInClose (opened_handle w DeviceId)] \<and>
        (drv_result w (midiInClose (opened_handle w DeviceId)) = MMSYSERR_NOERROR \<longrightarrow>
           fst (CMIDIInDevice_ctor w DeviceId Receiver) = Inl CMIDIInEventFailure \<and>
           m_State (snd (CMIDIInDevice_ctor w DeviceId Receiver)) = CLOSED) \<and>
        (drv_result w (midiInClose (opened_handle w DeviceId)) \<noteq> MMSYSERR_NOERROR \<longrightarrow>
           fst (CMIDIInDevice_ctor w DeviceId Receiver)
             = Inl (CMIDIInException (drv_result w (midiInClose (opened_handle w DeviceId)))) \<and>
           m_State (snd (CMIDIInDevice_ctor w DeviceId Receiver)) = OPENED)) \<and>
     (thread_created w \<and> drv_result w (midiOutOpen DeviceId) = MMSYSERR_NOERROR \<longrightarrow>
        calls (snd (CMIDIOutDevice_ctor w DeviceId))
          = [CreateThread, midiOutOpen DeviceId, CreateEvent, SetEvent,
             midiOutClose (opened_handle w DeviceId)] \<and>
        fst (CMIDIOutDevice_ctor w DeviceId) = Inl CMIDIOutEventFailure \<and>
        m_State_Out (snd (CMIDIOutDevice_ctor w DeviceId)) = CLOSED_Out)"
  using assms by (simp add: ctor_In_eq ctor_Out_eq)

theorem ctor_event_failure_witness:
  "\<not> event_created (no_event accepting) \<and>
   drv_result (no_event accepting) (midiInOpen 0) = MMSYSERR_NOERROR \<and>
   thread_created (no_event accepting) \<and>
   drv_result (no_event accepting) (midiOutOpen 0) = MMSYSERR_NOERROR \<and>
   drv_result (no_event accepting) (midiInClose 7) = MMSYSERR_NOERROR \<and>
   fst (CMIDIInDevice_ctor (no_event accepting) 0 1) = Inl CMIDIInEventFailure \<and>
   m_State (snd (CMIDIInDevice_ctor (no_event accepting) 0 1)) = CLOSED \<and>
   calls (snd (CMIDIInDevice_ctor (no_event accepting) 0 1))
     = [midiInOpen 0, CreateEvent, midiInClose 7] \<and>
   fst (CMIDIOutDevice_ctor (no_event accepting) 0) = Inl CMIDIOutEventFailure \<and>
   m_State_Out (snd (CMIDIOutDevice_ctor (no_event accepting) 0)) = CLOSED_Out \<and>
   calls (snd (CMIDIOutDevice_ctor (no_event accepting) 0))
     = [CreateThread, midiOutOpen 0, CreateEvent, SetEvent, midiOutClose 7] \<and>
   \<not> event_created (no_event (no_thread (refusing (midiOutOpen 0)))) \<and>
   \<not> thread_created (no_event (no_thread (refusing (midiOutOpen 0)))) \<and>
   drv_result (no_event (no_thread (refusing (midiOutOpen 0)))) (midiOutOpen 0)
     \<noteq> MMSYSERR_NOERROR \<and>
   drv_result (no_event (no_thread (refusing (midiOutOpen 0)))) (midiInOpen 0)
     = MMSYSERR_NOERROR \<and>
   fst (CMIDIInDevice_ctor (no_event (no_thread (refusing (midiOutOpen 0)))) 0 1)
     = Inl CMIDIInEventFailure \<and>
   m_State (snd (CMIDIInDevice_ctor (no_event (no_thread (refusing (midiOutOpen 0)))) 0 1))
     = CLOSED"
proof -
  have h: "\<not> event_created (no_event accepting)"
    "\<not> event_created (no_event (no_thread (refusing (midiOutOpen 0))))"
    by (simp_all add: no_event_def)
  have r: "drv_result (no_event accepting) (midiInOpen 0) = MMSYSERR_NOERROR"
    "thread_created (no_event accepting)"
    "drv_result (no_event accepting) (midiOutOpen 0) = MMSYSERR_NOERROR"
    "drv_result (no_event accepting) (midiInClose 7) = MMSYSERR_NOERROR"
    "opened_handle (no_event accepting) 0 = 7"
    "\<not> thread_created (no_event (no_thread (refusing (midiOutOpen 0))))"
    "drv_result (no_event (no_thread (refusing (midiOutOpen 0)))) (midiOutOpen 0) = 11"
    "drv_result (no_event (no_thread (refusing (midiOutOpen 0)))) (midiInOpen 0)
       = MMSYSERR_NOERROR"
    "drv_result (no_event (no_thread (refusing (midiOutOpen 0)))) (midiInClose 7)
       = MMSYSERR_NOERROR"
    "opened_handle (no_event (no_thread (refusing (midiOutOpen 0)))) 0 = 7"
    by (simp_all add: no_event_def no_thread_def refusing_def accepting_def)
  show ?thesis
    using ctor_event_failure [OF h(1), of 0 1] ctor_event_failure [OF h(2), of 0 1]
    by (simp add: h r MMSYSERR_NOERROR_def)
qed

text \<open>
  C9 as claimed fails on the input side: the driver opens the device, no event can be
  created, and the driver refuses the close. The constructor ends with the driver's
  error, not with \<open>CMIDIInEventFailure\<close>, and the device is still \<open>OPENED\<close>.
\<close>

theorem ctor_In_close_refused:
  "drv_result (no_event (refusing (midiInClose 7))) (midiInOpen 0) = MMSYSERR_NOERROR \<and>
   \<not> event_created (no_event (refusing (midiInClose 7))) \<and>
   fst (CMIDIInDevice_ctor (no_event (refusing (midiInClose 7))) 0 1)
     = Inl (CMIDIInException 11) \<and>
   fst (CMIDIInDevice_ctor (no_event (refusing (midiInClose 7))) 0 1)
     \<noteq> Inl CMIDIInEventFailure \<and>
   m_State (snd (CMIDIInDevice_ctor (no_event (refusing (midiInClose 7))) 0 1)) = OPENED"
  by (simp add: ctor_In_eq no_event_def refusing_def accepting_def MMSYSERR_NOERROR_def)

section \<open>CMIDIOutDevice: results\<close>

text \<open>
  C10. For every output device that is not \<open>OPENED\<close>, the short \<open>SendMsg\<close> and the long
  \<open>SendMsg\<close> return without an exception and leave the device as it was: its state,
  its header queue, and the history of calls, so nothing reaches the driver.
\<close>

theorem SendMsg_closed_noop:
  assumes "m_State_Out s \<noteq> OPENED_Out"
  shows "CMIDIOutDevice_SendMsg w Msg s = (Inr (), s) \<and>
         CMIDIOutDevice_SendMsg_Long w Buf MsgLength s = (Inr (), s)"
  using assms by (simp add: CMIDIOutDevice_SendMsg_def CMIDIOutDevice_SendMsg_Long_def)

theorem SendMsg_closed_noop_witness:
  "m_State_Out (out_dev CLOSED_Out []) \<noteq> OPENED_Out \<and>
   CMIDIOutDevice_SendMsg (refusing (midiOutShortMsg 3 144)) 144 (out_dev CLOSED_Out [])
     = (Inr (), out_dev CLOSED_Out []) \<and>
   CMIDIOutDevice_SendMsg_Long accepting 100 64 (out_dev CLOSED_Out [])
     = (Inr (), out_dev CLOSED_Out [])"
  using SendMsg_closed_noop [of "out_dev CLOSED_Out []" "refusing (midiOutShortMsg 3 144)" 144]
    SendMsg_closed_noop [of "out_dev CLOSED_Out []" accepting _ 100 64]
  by (simp add: out_dev_def)

end
